theory Spec2Isabelle
  imports Main "HOL-Library.Sublist"
begin

section \<open>Data model (models.py)\<close>

text \<open>
  A \<open>datetime\<close> is a reading of the server's UTC clock, counted in clock ticks.
  Python's \<open>int\<close> is unbounded, hence \<open>int\<close>. A field declared with the default
  \<open>None\<close> is an option; the primary key \<open>id\<close> is absent on an object that was never
  persisted and present on every row the store hands back.
\<close>

type_synonym datetime = int

record User =
  user_id :: "int option"
  email :: "string option"
  username :: string
  password :: string
  is_superuser :: "bool option"
  is_active :: "bool option"

record Item =
  item_id :: "int option"
  description :: string
  quantity :: int
  unit_price :: "int option"
  last_modification :: "datetime option"

section \<open>The persistence layer as main.py uses it\<close>

text \<open>
  The store holds the two tables, each as the list of its rows in storage order (the
  order a \<open>select\<close> without a sort key scans them in: ascending primary key). The
  session of a request is the store it reads and the store it leaves behind, so every
  handler takes a \<open>Database\<close> and returns the new one.
\<close>

record Database =
  item_table :: "Item list"
  user_table :: "User list"

text \<open>
  Everything a handler can raise. \<open>HTTPException\<close> is the only kind the application
  raises itself. The others come from the store (\<open>.one()\<close> on no row or on several
  rows; an integer that does not fit the store's 64-bit column or parameter; a commit that
  breaks the primary key; an insert for which the store finds no unused key; a refresh of
  an object that has no row) and from the password hasher.
\<close>

datatype error =
    HTTPException int string
  | NoResultFound
  | MultipleResultsFound
  | OverflowError
  | IntegrityError
  | OperationalError
  | InvalidRequestError
  | PasswordValueError

text \<open>
  The store holds integers as signed 64-bit values. A Python integer outside that range
  cannot be bound to a statement: the statement is not run and \<open>OverflowError\<close> is raised.
\<close>

definition int64 :: "int \<Rightarrow> bool" where
  "int64 i = (- (2 ^ 63) \<le> i \<and> i < 2 ^ 63)"

definition int64_opt :: "int option \<Rightarrow> bool" where
  "int64_opt v = (case v of None \<Rightarrow> True | Some i \<Rightarrow> int64 i)"

text \<open>
  \<open>.offset(skip).limit(limit)\<close>: both numbers are bound to the statement; then the rows
  after the first \<open>skip\<close>, at most \<open>limit\<close> of them. A negative offset skips nothing
  and a negative limit is no limit.
\<close>

definition offset_limit :: "int \<Rightarrow> int \<Rightarrow> 'a list \<Rightarrow> error + 'a list" where
  "offset_limit skip limit rows =
     (if \<not> int64 skip \<or> \<not> int64 limit then Inl OverflowError
      else (let rest = drop (nat skip) rows
            in Inr (if limit < 0 then rest else take (nat limit) rest)))"

text \<open>
  \<open>.where(Model.id == i)\<close>: the id is bound to the statement; then the rows whose
  primary key is \<open>i\<close>.
\<close>

definition where_id :: "('a \<Rightarrow> int option) \<Rightarrow> int \<Rightarrow> 'a list \<Rightarrow> error + 'a list" where
  "where_id key i rows =
     (if \<not> int64 i then Inl OverflowError else Inr (filter (\<lambda>r. key r = Some i) rows))"

text \<open>\<open>.first()\<close>: the first row of the result, \<open>None\<close> when there is none.\<close>

definition exec_first :: "'a list \<Rightarrow> 'a option" where
  "exec_first rows = (case rows of [] \<Rightarrow> None | r # _ \<Rightarrow> Some r)"

text \<open>\<open>.one()\<close>: the only row of the result; it raises on no row and on several rows.\<close>

definition exec_one :: "'a list \<Rightarrow> error + 'a" where
  "exec_one rows =
     (case rows of
        [] \<Rightarrow> Inl NoResultFound
      | [r] \<Rightarrow> Inr r
      | _ # _ # _ \<Rightarrow> Inl MultipleResultsFound)"

text \<open>The primary keys in use in a table.\<close>

definition table_ids :: "('a \<Rightarrow> int option) \<Rightarrow> 'a list \<Rightarrow> int list" where
  "table_ids key rows = List.map_filter key rows"

text \<open>
  The key the store gives a row inserted without one: 1 in an empty table, otherwise one
  more than the largest key in use. When the largest key is the largest 64-bit value the
  store draws keys between 1 and \<open>2 ^ 62\<close> at random until one is unused; \<open>rowid\<close> is the
  draw it ends on, and when that one is in use too the store gives up.
\<close>

definition next_id :: "int \<Rightarrow> int list \<Rightarrow> error + int" where
  "next_id rowid ids =
     (case ids of
        [] \<Rightarrow> Inr 1
      | i # rest \<Rightarrow>
          (let largest = fold max rest i
           in if largest < 2 ^ 63 - 1 then Inr (largest + 1)
              else if 1 \<le> rowid \<and> rowid \<le> 2 ^ 62 \<and> rowid \<notin> set ids then Inr rowid
              else Inl OperationalError))"

text \<open>
  The key an INSERT stores a row under: the store's choice for an object without an id,
  the object's own id otherwise, unless a row has it already, which breaks the primary
  key.
\<close>

definition new_key :: "int \<Rightarrow> int list \<Rightarrow> int option \<Rightarrow> error + int" where
  "new_key rowid ids given =
     (case given of
        None \<Rightarrow> next_id rowid ids
      | Some i \<Rightarrow> if i \<in> set ids then Inl IntegrityError else Inr i)"

text \<open>A new row takes its place in key order: before the first row with a larger key.\<close>

fun insert_row :: "('a \<Rightarrow> int option) \<Rightarrow> int \<Rightarrow> 'a \<Rightarrow> 'a list \<Rightarrow> 'a list" where
  "insert_row key i row [] = [row]"
| "insert_row key i row (r # rs) =
     (if (case key r of None \<Rightarrow> False | Some j \<Rightarrow> i < j)
      then row # r # rs
      else r # insert_row key i row rs)"

text \<open>The integer columns of an object, all of which the INSERT binds.\<close>

definition item_binds :: "Item \<Rightarrow> bool" where
  "item_binds item =
     (int64_opt (item_id item) \<and> int64 (quantity item) \<and> int64_opt (unit_price item))"

definition user_binds :: "User \<Rightarrow> bool" where
  "user_binds user = int64_opt (user_id user)"

text \<open>
  \<open>session.add(obj); session.commit()\<close> for an object built from a request body: an
  INSERT. Its values are bound first; then the row is stored under its key. When the
  commit raises, the table is as it was. The result is the new store and the primary key
  of the new row.
\<close>

definition commit_new_item :: "int \<Rightarrow> Database \<Rightarrow> Item \<Rightarrow> error + Database \<times> int" where
  "commit_new_item rowid session item =
     (if \<not> item_binds item then Inl OverflowError
      else case new_key rowid (table_ids item_id (item_table session)) (item_id item) of
             Inl e \<Rightarrow> Inl e
           | Inr i \<Rightarrow>
               Inr (session\<lparr>item_table :=
                      insert_row item_id i (item\<lparr>item_id := Some i\<rparr>) (item_table session)\<rparr>, i))"

definition commit_new_user :: "int \<Rightarrow> Database \<Rightarrow> User \<Rightarrow> error + Database \<times> int" where
  "commit_new_user rowid session user =
     (if \<not> user_binds user then Inl OverflowError
      else case new_key rowid (table_ids user_id (user_table session)) (user_id user) of
             Inl e \<Rightarrow> Inl e
           | Inr i \<Rightarrow>
               Inr (session\<lparr>user_table :=
                      insert_row user_id i (user\<lparr>user_id := Some i\<rparr>) (user_table session)\<rparr>, i))"

text \<open>
  \<open>session.refresh(obj)\<close>: the object as its row now reads in the store. The key is the
  one the store holds the row under.
\<close>

definition refresh_item :: "Database \<Rightarrow> int \<Rightarrow> error + Item" where
  "refresh_item session pk =
     (case exec_first (filter (\<lambda>r. item_id r = Some pk) (item_table session)) of
        None \<Rightarrow> Inl InvalidRequestError
      | Some row \<Rightarrow> Inr row)"

definition refresh_user :: "Database \<Rightarrow> int \<Rightarrow> error + User" where
  "refresh_user session pk =
     (case exec_first (filter (\<lambda>r. user_id r = Some pk) (user_table session)) of
        None \<Rightarrow> Inl InvalidRequestError
      | Some row \<Rightarrow> Inr row)"

text \<open>
  \<open>item.quantity = qty; session.add(item); session.commit()\<close> for an item loaded from
  the store: an UPDATE of the one changed column on the row with the item's key. The new
  quantity is bound first; when it does not fit, the commit raises and the table is as it
  was.
\<close>

definition commit_quantity :: "Database \<Rightarrow> int \<Rightarrow> int \<Rightarrow> error + Database" where
  "commit_quantity session pk qty =
     (if \<not> int64 qty then Inl OverflowError
      else Inr (session\<lparr>item_table :=
                  map (\<lambda>r. if item_id r = Some pk then r\<lparr>quantity := qty\<rparr> else r)
                    (item_table session)\<rparr>))"

text \<open>
  \<open>session.delete(item); session.commit()\<close>: a DELETE of the row with the item's key,
  the key under which the item was loaded.
\<close>

definition commit_delete :: "Database \<Rightarrow> int \<Rightarrow> Database" where
  "commit_delete session pk =
     session\<lparr>item_table := filter (\<lambda>r. item_id r \<noteq> Some pk) (item_table session)\<rparr>"

section \<open>The password hasher\<close>

text \<open>
  \<open>pwd_context\<close> is the hashing library, taken as it is used: \<open>hash\<close> maps a plaintext
  to a digest and \<open>verify\<close> tests a plaintext against a digest. Either may raise instead
  (the library refuses a password that holds a NUL byte, for one).
\<close>

record CryptContext =
  hash :: "string \<Rightarrow> error + string"
  verify :: "string \<Rightarrow> string \<Rightarrow> error + bool"

section \<open>Responses\<close>

text \<open>
  A template response is the template's name and its context (the request object, which
  every context carries, is left out). The two JSON responses echo a model object.
\<close>

datatype ctx_value =
    VItems "Item list"
  | VItem "Item option"
  | VStr string
  | VBool bool
  | VInt int

datatype response =
    TemplateResponse string "(string \<times> ctx_value) list"
  | RedirectResponse string
  | ItemJSON Item
  | UserJSON User

section \<open>The handlers (main.py)\<close>

definition read_items :: "Database \<Rightarrow> int \<Rightarrow> int \<Rightarrow> error + Item list" where
  "read_items session skip limit =
     (case offset_limit skip limit (item_table session) of
        Inl e \<Rightarrow> Inl e
      | Inr items \<Rightarrow>
          if items = [] then Inl (HTTPException 404 ''No item found.'') else Inr items)"

definition http_exception_handler :: "int \<Rightarrow> string \<Rightarrow> response" where
  "http_exception_handler status_code detail =
     TemplateResponse ''error.html'' [(''status_code'', VInt status_code), (''detail'', VStr detail)]"


definition create_item ::
  "datetime \<Rightarrow> int \<Rightarrow> Database \<Rightarrow> Item \<Rightarrow> Database \<times> (error + response)" where
  "create_item utcnow rowid session item =
     (let item = item\<lparr>last_modification := Some utcnow\<rparr>
      in case commit_new_item rowid session item of
           Inl e \<Rightarrow> (session, Inl e)
         | Inr (session', pk) \<Rightarrow>
             (case refresh_item session' pk of
                Inl e \<Rightarrow> (session', Inl e)
              | Inr item \<Rightarrow> (session', Inr (ItemJSON item))))"

definition create_user ::
  "CryptContext \<Rightarrow> int \<Rightarrow> Database \<Rightarrow> User \<Rightarrow> Database \<times> (error + response)" where
  "create_user pwd_context rowid session user =
     (case hash pwd_context (password user) of
        Inl e \<Rightarrow> (session, Inl e)
      | Inr digest \<Rightarrow>
          (let user = user\<lparr>password := digest\<rparr>
           in case commit_new_user rowid session user of
                Inl e \<Rightarrow> (session, Inl e)
              | Inr (session', pk) \<Rightarrow>
                  (case refresh_user session' pk of
                     Inl e \<Rightarrow> (session', Inl e)
                   | Inr user \<Rightarrow> (session', Inr (UserJSON user)))))"

text \<open>\<open>POST /signin\<close>.\<close>

definition get_user ::
  "CryptContext \<Rightarrow> Database \<Rightarrow> string \<Rightarrow> string \<Rightarrow> Database \<times> (error + response)" where
  "get_user pwd_context session uname pw =
     (case exec_first (filter (\<lambda>u. username u = uname) (user_table session)) of
        None \<Rightarrow> (session, Inr (TemplateResponse ''./login.html'' [(''incorrect'', VBool True)]))
      | Some user \<Rightarrow>
          (case verify pwd_context pw (password user) of
             Inl e \<Rightarrow> (session, Inl e)
           | Inr verified \<Rightarrow>
               if \<not> verified
               then (session, Inr (TemplateResponse ''./login.html'' [(''incorrect'', VBool True)]))
               else (case read_items session 0 10 of
                       Inl e \<Rightarrow> (session, Inl e)
                     | Inr items \<Rightarrow>
                         (session, Inr (TemplateResponse ''./index_admin.html''
                                          [(''username'', VStr uname), (''items'', VItems items)])))))"

text \<open>\<open>GET /item/{item_id}\<close>.\<close>

definition edit_item :: "Database \<Rightarrow> int \<Rightarrow> Database \<times> (error + response)" where
  "edit_item session pk =
     (case read_items session 0 10 of
        Inl e \<Rightarrow> (session, Inl e)
      | Inr items \<Rightarrow>
          (case where_id item_id pk (item_table session) of
             Inl e \<Rightarrow> (session, Inl e)
           | Inr result \<Rightarrow>
               (let item = exec_first result
                in (session, Inr (TemplateResponse ''./edit_item.html''
                                    [(''item'', VItem item), (''items'', VItems items)])))))"

text \<open>
  \<open>PUT /update_item/{item_id}\<close>. The header \<open>hx_request\<close> is optional, and
  \<open>if hx_request\<close> holds for a header that is present and not empty.
\<close>

definition truthy :: "string option \<Rightarrow> bool" where
  "truthy h = (case h of None \<Rightarrow> False | Some s \<Rightarrow> s \<noteq> [])"

definition update_item ::
  "Database \<Rightarrow> int \<Rightarrow> int \<Rightarrow> string option \<Rightarrow> Database \<times> (error + response)" where
  "update_item session pk qty hx_request =
     (case where_id item_id pk (item_table session) of
        Inl e \<Rightarrow> (session, Inl e)
      | Inr result \<Rightarrow>
          (case exec_one result of
             Inl e \<Rightarrow> (session, Inl e)
           | Inr item \<Rightarrow>
               (case commit_quantity session pk qty of
                  Inl e \<Rightarrow> (session, Inl e)
                | Inr session' \<Rightarrow>
                    (case refresh_item session' pk of
                       Inl e \<Rightarrow> (session', Inl e)
                     | Inr item \<Rightarrow>
                         (case read_items session' 0 10 of
                            Inl e \<Rightarrow> (session', Inl e)
                          | Inr items \<Rightarrow>
                              (session', Inr (TemplateResponse
                                 (if truthy hx_request then ''./item_edited.html''
                                  else ''./edit_item.html'')
                                 [(''item'', VItem (Some item)), (''items'', VItems items)])))))))"

text \<open>
  \<open>DELETE /delete_item/{item_id}\<close>. The source tests \<open>if not item\<close> on what \<open>.one()\<close>
  returned; a model object is never falsy, only \<open>None\<close> is.
\<close>

definition falsy :: "Item option \<Rightarrow> bool" where
  "falsy obj = (obj = None)"

definition delete_item :: "Database \<Rightarrow> int \<Rightarrow> Database \<times> (error + response)" where
  "delete_item session pk =
     (case where_id item_id pk (item_table session) of
        Inl e \<Rightarrow> (session, Inl e)
      | Inr result \<Rightarrow>
          (case exec_one result of
             Inl e \<Rightarrow> (session, Inl e)
           | Inr item \<Rightarrow>
               if falsy (Some item) then (session, Inl (HTTPException 404 ''Item not found''))
               else (let session' = commit_delete session pk
                     in case read_items session' 0 10 of
                          Inl e \<Rightarrow> (session', Inl e)
                        | Inr items \<Rightarrow>
                            (session', Inr (TemplateResponse ''./index_admin.html''
                                              [(''items'', VItems items)])))))"

text \<open>The second handler registered for \<open>POST /create_item\<close>.\<close>

definition add_item :: "int \<Rightarrow> Database \<Rightarrow> Item \<Rightarrow> Database \<times> (error + response)" where
  "add_item rowid session item =
     (case commit_new_item rowid session item of
        Inl e \<Rightarrow> (session, Inl e)
      | Inr (session', pk) \<Rightarrow>
          (case refresh_item session' pk of
             Inl e \<Rightarrow> (session', Inl e)
           | Inr item \<Rightarrow> (session', Inr (ItemJSON item))))"




section \<open>What the client gets\<close>

text \<open>
  The handler registered with \<open>@app.exception_handler(HTTPException)\<close> turns a raised
  \<open>HTTPException\<close> into the error page; any other exception is not handled and ends the
  request as a server fault.
\<close>

datatype outcome = Responded response | Unhandled error

fun respond :: "error + response \<Rightarrow> outcome" where
  "respond (Inr r) = Responded r"
| "respond (Inl (HTTPException status_code detail)) =
     Responded (http_exception_handler status_code detail)"
| "respond (Inl e) = Unhandled e"




section \<open>Properties of the store\<close>





section \<open>Example data\<close>

text \<open>A hasher for the examples: it refuses a password with a NUL byte, as the library does.\<close>

definition toy_context :: CryptContext where
  "toy_context =
     \<lparr>hash = (\<lambda>p. if CHR 0x00 \<in> set p then Inl PasswordValueError else Inr (''$2b$12$'' @ p)),
      verify = (\<lambda>p h. if CHR 0x00 \<in> set p then Inl PasswordValueError
                       else Inr (h = ''$2b$12$'' @ p))\<rparr>"

definition admin :: User where
  "admin = \<lparr>user_id = Some 1, email = Some ''admin@shop.example'', username = ''admin'',
             password = ''$2b$12$Passw0rd!'', is_superuser = Some True, is_active = Some True\<rparr>"

definition bolt :: Item where
  "bolt = \<lparr>item_id = Some 1, description = ''bolt'', quantity = 5, unit_price = Some 3,
            last_modification = Some 100\<rparr>"

definition nut :: Item where
  "nut = \<lparr>item_id = Some 2, description = ''nut'', quantity = 40, unit_price = None,
           last_modification = Some 120\<rparr>"

definition washer :: Item where
  "washer = \<lparr>item_id = None, description = ''washer'', quantity = 9, unit_price = Some 1,
              last_modification = Some 1\<rparr>"

definition clerk :: User where
  "clerk = \<lparr>user_id = None, email = Some ''clerk@shop.example'', username = ''clerk'',
             password = ''Secr3t!pw'', is_superuser = Some False, is_active = Some True\<rparr>"

definition shop :: Database where
  "shop = \<lparr>item_table = [bolt, nut], user_table = [admin]\<rparr>"

definition bare_shop :: Database where
  "bare_shop = \<lparr>item_table = [], user_table = [admin]\<rparr>"

section \<open>Facts about the store\<close>

lemma int64_small [simp]: "int64 0" "int64 1" "int64 2" "int64 3" "int64 5" "int64 7" "int64 9"
  "int64 10" "int64 12" "int64 40" "int64 (- 1)"
  by (simp_all add: int64_def)

lemma not_int64_big [simp]: "\<not> int64 (2 ^ 63)" "\<not> int64 9223372036854775808"
  by (simp_all add: int64_def)

lemma offset_limit_in_range:
  "int64 skip \<Longrightarrow> int64 limit \<Longrightarrow>
   offset_limit skip limit rows =
     Inr (if limit < 0 then drop (nat skip) rows else take (nat limit) (drop (nat skip) rows))"
  by (simp add: offset_limit_def Let_def)

lemma offset_limit_out_of_range:
  "\<not> int64 skip \<or> \<not> int64 limit \<Longrightarrow> offset_limit skip limit rows = Inl OverflowError"
  by (auto simp: offset_limit_def)

lemma offset_limit_beyond:
  "int64 skip \<Longrightarrow> int64 limit \<Longrightarrow> int (length rows) \<le> skip \<Longrightarrow>
   offset_limit skip limit rows = Inr []"
  by (simp add: offset_limit_in_range)


lemma first_page: "offset_limit 0 10 rows = Inr (take 10 rows)"
  by (simp add: offset_limit_in_range)

lemma read_items_first_page:
  "read_items session 0 10 =
     (if item_table session = [] then Inl (HTTPException 404 ''No item found.'')
      else Inr (take 10 (item_table session)))"
  by (simp add: read_items_def first_page)



lemma where_id_Inr:
  "where_id key i rows = Inr result \<Longrightarrow>
   int64 i \<and> result = filter (\<lambda>r. key r = Some i) rows"
  by (auto simp: where_id_def split: if_splits)

lemma mem_table_ids: "i \<in> set (table_ids key rows) \<longleftrightarrow> (\<exists>r\<in>set rows. key r = Some i)"
  unfolding table_ids_def by (induction rows) (auto split: option.splits)

lemma fold_max_ge: "(j::int) \<in> set (i # rest) \<Longrightarrow> j \<le> fold max rest i"
proof -
  assume "j \<in> set (i # rest)"
  then have "j \<le> Max (set (i # rest))" by (intro Max_ge) auto
  then show ?thesis by (simp only: Max.set_eq_fold)
qed

lemma next_id_fresh:
  assumes "next_id rowid ids = Inr k"
  shows "k \<notin> set ids"
proof (cases ids)
  case Nil
  then show ?thesis by simp
next
  case (Cons i rest)
  show ?thesis
  proof (cases "fold max rest i < 2 ^ 63 - 1")
    case True
    with assms Cons have k: "k = fold max rest i + 1" by (simp add: next_id_def)
    show ?thesis
    proof
      assume "k \<in> set ids"
      then have "k \<le> fold max rest i" using Cons fold_max_ge by blast
      then show False using k by simp
    qed
  next
    case False
    with assms Cons show ?thesis by (simp add: next_id_def Let_def split: if_splits)
  qed
qed

lemma next_id_ordinary:
  assumes "\<forall>j\<in>set ids. j < 2 ^ 63 - 1"
  shows "next_id rowid ids = Inr (case ids of [] \<Rightarrow> 1 | i # rest \<Rightarrow> Max (set ids) + 1)"
proof (cases ids)
  case Nil
  then show ?thesis by (simp add: next_id_def)
next
  case (Cons i rest)
  have m: "fold max rest i = Max (set (i # rest))" by (simp only: Max.set_eq_fold)
  have "Max (set (i # rest)) \<in> set (i # rest)" by (intro Max_in) auto
  then have "Max (set (i # rest)) < 2 ^ 63 - 1" using assms Cons by blast
  then show ?thesis using Cons m by (simp add: next_id_def Let_def)
qed

lemma new_key_fresh: "new_key rowid ids given = Inr k \<Longrightarrow> k \<notin> set ids"
  by (cases given) (auto simp: new_key_def next_id_fresh split: if_splits)


lemma insert_row_split:
  "\<exists>pre post. rows = pre @ post \<and> insert_row key i row rows = pre @ row # post"
proof (induction rows)
  case Nil then show ?case by simp
next
  case (Cons r rs)
  then obtain pre post where *: "rs = pre @ post" "insert_row key i row rs = pre @ row # post" by blast
  show ?case
  proof (cases "case key r of None \<Rightarrow> False | Some j \<Rightarrow> i < j")
    case True
    then have "r # rs = [] @ (r # rs) \<and> insert_row key i row (r # rs) = [] @ row # (r # rs)" by simp
    then show ?thesis by blast
  next
    case False
    then have "r # rs = (r # pre) @ post \<and> insert_row key i row (r # rs) = (r # pre) @ row # post"
      using * by simp
    then show ?thesis by blast
  qed
qed

lemma set_insert_row [simp]: "set (insert_row key i row rows) = insert row (set rows)"
  using insert_row_split [of rows key i row] by auto

lemma filter_id_insert_row:
  assumes "key row = Some i" "i \<notin> set (table_ids key rows)"
  shows "filter (\<lambda>r. key r = Some i) (insert_row key i row rows) = [row]"
proof -
  obtain pre post where *: "rows = pre @ post" "insert_row key i row rows = pre @ row # post"
    using insert_row_split [of rows key i row] by blast
  have "\<forall>r\<in>set (pre @ post). key r \<noteq> Some i"
    using assms(2) unfolding *(1) by (simp add: mem_table_ids)
  then have "filter (\<lambda>r. key r = Some i) pre = []" "filter (\<lambda>r. key r = Some i) post = []"
    by (simp_all add: filter_empty_conv)
  then show ?thesis using assms(1) by (simp add: *(2))
qed



section \<open>Listing\<close>

text \<open>
  C1, as the code has it. \<open>read_items\<close> raises the not-found error with status 404
  exactly when the query returns an empty page, and returns the page exactly when the
  query returns a page that is not empty: it never returns an empty sequence. For a
  skip and a limit that the store can bind this covers the store without items and the
  skip that is at least the number of items. A skip or a limit outside the signed
  64-bit range cannot be bound: the query raises \<open>OverflowError\<close>, which is what
  \<open>read_items\<close> then raises.
\<close>

theorem read_items_not_found_iff_empty_page:
  "(read_items session skip limit = Inl (HTTPException 404 ''No item found.''))
     = (offset_limit skip limit (item_table session) = Inr [])
   \<and> (read_items session skip limit = Inr items)
     = (offset_limit skip limit (item_table session) = Inr items \<and> items \<noteq> [])
   \<and> read_items session skip limit \<noteq> Inr []
   \<and> (int64 skip \<and> int64 limit \<and> item_table session = [] \<longrightarrow>
        read_items session skip limit = Inl (HTTPException 404 ''No item found.''))
   \<and> (int64 skip \<and> int64 limit \<and> int (length (item_table session)) \<le> skip \<longrightarrow>
        read_items session skip limit = Inl (HTTPException 404 ''No item found.''))
   \<and> (\<not> int64 skip \<or> \<not> int64 limit \<longrightarrow>
        read_items session skip limit = Inl OverflowError)"
proof -
  have a: "(read_items session skip limit = Inl (HTTPException 404 ''No item found.''))
     = (offset_limit skip limit (item_table session) = Inr [])"
    by (cases "offset_limit skip limit (item_table session)")
       (auto simp: read_items_def offset_limit_def Let_def split: if_splits)
  have b: "(read_items session skip limit = Inr items)
     = (offset_limit skip limit (item_table session) = Inr items \<and> items \<noteq> [])"
    by (cases "offset_limit skip limit (item_table session)")
       (auto simp: read_items_def)
  have c: "read_items session skip limit \<noteq> Inr []"
    by (cases "offset_limit skip limit (item_table session)")
       (auto simp: read_items_def)
  have d: "int64 skip \<and> int64 limit \<and> item_table session = [] \<longrightarrow>
        read_items session skip limit = Inl (HTTPException 404 ''No item found.'')"
    by (simp add: read_items_def offset_limit_in_range)
  have e: "int64 skip \<and> int64 limit \<and> int (length (item_table session)) \<le> skip \<longrightarrow>
        read_items session skip limit = Inl (HTTPException 404 ''No item found.'')"
    by (simp add: read_items_def offset_limit_beyond)
  have f: "\<not> int64 skip \<or> \<not> int64 limit \<longrightarrow>
        read_items session skip limit = Inl OverflowError"
    by (auto simp: read_items_def offset_limit_def)
  show ?thesis by (rule conjI [OF a conjI [OF b conjI [OF c conjI [OF d conjI [OF e f]]]]])
qed

theorem read_items_witness:
  "read_items bare_shop 0 10 = Inl (HTTPException 404 ''No item found.'')
   \<and> read_items shop 2 10 = Inl (HTTPException 404 ''No item found.'')
   \<and> read_items shop 0 (2 ^ 63) = Inl OverflowError"
proof -
  note t1 = read_items_not_found_iff_empty_page [where session = bare_shop and skip = 0
      and limit = 10, THEN conjunct2, THEN conjunct2, THEN conjunct2, THEN conjunct1, rule_format]
  note t2 = read_items_not_found_iff_empty_page [where session = shop and skip = 2
      and limit = 10, THEN conjunct2, THEN conjunct2, THEN conjunct2, THEN conjunct2,
      THEN conjunct1, rule_format]
  note t3 = read_items_not_found_iff_empty_page [where session = shop and skip = 0
      and limit = "2 ^ 63", THEN conjunct2, THEN conjunct2, THEN conjunct2, THEN conjunct2,
      THEN conjunct2, rule_format]
  have "read_items bare_shop 0 10 = Inl (HTTPException 404 ''No item found.'')"
    by (rule t1) (simp add: bare_shop_def)
  moreover have "read_items shop 2 10 = Inl (HTTPException 404 ''No item found.'')"
    by (rule t2) (simp add: shop_def)
  moreover have "read_items shop 0 (2 ^ 63) = Inl OverflowError"
    by (rule t3) simp
  ultimately show ?thesis by (intro conjI)
qed

text \<open>
  The store holds two items and the skip \<open>2 ^ 63\<close> is beyond them: the listing raises
  \<open>OverflowError\<close>, not the not-found error.
\<close>

theorem read_items_overflow_counterexample:
  "int (length (item_table shop)) \<le> 2 ^ 63
   \<and> read_items shop (2 ^ 63) 10 = Inl OverflowError
   \<and> read_items shop (2 ^ 63) 10 \<noteq> Inl (HTTPException 404 ''No item found.'')"
  by (simp add: read_items_def offset_limit_def shop_def)

section \<open>Updating an item\<close>

lemma filter_id_commit_quantity:
  "filter (\<lambda>r. item_id r = Some pk)
     (map (\<lambda>r. if item_id r = Some pk then r\<lparr>quantity := qty\<rparr> else r) rows)
   = map (\<lambda>r. r\<lparr>quantity := qty\<rparr>) (filter (\<lambda>r. item_id r = Some pk) rows)"
  by (induction rows) simp_all


lemma filter_single_mem:
  assumes "filter P rows = [r]"
  shows "r \<in> set rows \<and> P r"
proof -
  have "r \<in> set (filter P rows)" using assms by simp
  then show ?thesis by simp
qed

lemma filter_single_split:
  "filter P xs = [x] \<Longrightarrow>
   \<exists>pre post. xs = pre @ x # post \<and> (\<forall>r\<in>set pre. \<not> P r) \<and> P x \<and> (\<forall>r\<in>set post. \<not> P r)"
proof (induction xs)
  case Nil
  then show ?case by simp
next
  case (Cons a xs)
  show ?case
  proof (cases "P a")
    case True
    with Cons.prems have "a = x" "filter P xs = []" by simp_all
    then have "a # xs = [] @ x # xs \<and> (\<forall>r\<in>set []. \<not> P r) \<and> P x \<and> (\<forall>r\<in>set xs. \<not> P r)"
      using True by (simp add: filter_empty_conv)
    then show ?thesis by (intro exI)
  next
    case False
    with Cons.prems have "filter P xs = [x]" by simp
    from Cons.IH [OF this] obtain pre post where
      "xs = pre @ x # post \<and> (\<forall>r\<in>set pre. \<not> P r) \<and> P x \<and> (\<forall>r\<in>set post. \<not> P r)"
      by (elim exE)
    then have "a # xs = (a # pre) @ x # post \<and> (\<forall>r\<in>set (a # pre). \<not> P r) \<and> P x
               \<and> (\<forall>r\<in>set post. \<not> P r)"
      using False by simp
    then show ?thesis by (intro exI)
  qed
qed

text \<open>The store after the UPDATE of a quantity that fits.\<close>

lemma update_item_one_row:
  assumes one: "where_id item_id pk (item_table session) = Inr [item]" and fits: "int64 qty"
  shows "update_item session pk qty hx_request =
           (session\<lparr>item_table :=
              map (\<lambda>r. if item_id r = Some pk then r\<lparr>quantity := qty\<rparr> else r) (item_table session)\<rparr>,
            Inr (TemplateResponse
                   (if truthy hx_request then ''./item_edited.html'' else ''./edit_item.html'')
                   [(''item'', VItem (Some (item\<lparr>quantity := qty\<rparr>))),
                    (''items'', VItems (take 10
                       (map (\<lambda>r. if item_id r = Some pk then r\<lparr>quantity := qty\<rparr> else r)
                          (item_table session))))]))"
proof -
  let ?rows = "map (\<lambda>r. if item_id r = Some pk then r\<lparr>quantity := qty\<rparr> else r) (item_table session)"
  from where_id_Inr [OF one] have f: "filter (\<lambda>r. item_id r = Some pk) (item_table session) = [item]"
    by simp
  have w: "filter (\<lambda>r. item_id r = Some pk) ?rows = [item\<lparr>quantity := qty\<rparr>]"
    by (simp add: filter_id_commit_quantity f)
  from filter_single_mem [OF w] have ne: "?rows \<noteq> []" by auto
  show ?thesis
    using ne
    by (simp add: update_item_def one exec_one_def commit_quantity_def fits refresh_item_def w
        exec_first_def read_items_first_page)
qed

lemma update_item_quantity_overflow:
  assumes "where_id item_id pk (item_table session) = Inr [item]" "\<not> int64 qty"
  shows "update_item session pk qty hx_request = (session, Inl OverflowError)"
  by (simp add: update_item_def assms exec_one_def commit_quantity_def)







text \<open>
  C10. When exactly one row has the id, \<open>PUT /update_item/{id}\<close> changes at most the
  quantity of that row: the row keeps its place, its id, description, unit price and
  last-modification time (no new time is stamped), every other item row is as before,
  and the user table is untouched. The quantity of the row is the submitted one when it
  fits the store's 64-bit column; when it does not, the request fails and the row keeps
  its quantity too.
\<close>

theorem update_item_changes_only_quantity:
  "where_id item_id pk (item_table session) = Inr [item] \<longrightarrow>
     (\<exists>pre post row.
        item_table session = pre @ item # post
        \<and> item_table (fst (update_item session pk qty hx_request)) = pre @ row # post
        \<and> item_id row = item_id item
        \<and> description row = description item
        \<and> unit_price row = unit_price item
        \<and> last_modification row = last_modification item
        \<and> (int64 qty \<longrightarrow> quantity row = qty)
        \<and> (\<not> int64 qty \<longrightarrow> row = item))
     \<and> user_table (fst (update_item session pk qty hx_request)) = user_table session"
proof
  assume one: "where_id item_id pk (item_table session) = Inr [item]"
  let ?P = "\<lambda>r. item_id r = Some pk"
  let ?f = "\<lambda>r. if item_id r = Some pk then r\<lparr>quantity := qty\<rparr> else r"
  from where_id_Inr [OF one] have "filter ?P (item_table session) = [item]" by simp
  from filter_single_split [OF this] obtain pre post where
    split: "item_table session = pre @ item # post"
    and pre: "\<forall>r\<in>set pre. \<not> ?P r" and it: "?P item" and post: "\<forall>r\<in>set post. \<not> ?P r"
    by (elim exE conjE)
  have mp: "map ?f pre = pre" using pre by (simp add: map_idI)
  have mq: "map ?f post = post" using post by (simp add: map_idI)
  let ?row = "if int64 qty then item\<lparr>quantity := qty\<rparr> else item"
  have tab: "item_table (fst (update_item session pk qty hx_request)) = pre @ ?row # post"
  proof (cases "int64 qty")
    case True
    show ?thesis unfolding update_item_one_row [OF one True] using it True
      by (simp add: split mp mq)
  next
    case False
    show ?thesis unfolding update_item_quantity_overflow [OF one False] using False
      by (simp add: split)
  qed
  have usr: "user_table (fst (update_item session pk qty hx_request)) = user_table session"
  proof (cases "int64 qty")
    case True
    show ?thesis unfolding update_item_one_row [OF one True] by simp
  next
    case False
    show ?thesis unfolding update_item_quantity_overflow [OF one False] by simp
  qed
  have "item_table session = pre @ item # post
        \<and> item_table (fst (update_item session pk qty hx_request)) = pre @ ?row # post
        \<and> item_id ?row = item_id item
        \<and> description ?row = description item
        \<and> unit_price ?row = unit_price item
        \<and> last_modification ?row = last_modification item
        \<and> (int64 qty \<longrightarrow> quantity ?row = qty)
        \<and> (\<not> int64 qty \<longrightarrow> ?row = item)"
    using split tab by simp
  then have "\<exists>pre post row.
        item_table session = pre @ item # post
        \<and> item_table (fst (update_item session pk qty hx_request)) = pre @ row # post
        \<and> item_id row = item_id item
        \<and> description row = description item
        \<and> unit_price row = unit_price item
        \<and> last_modification row = last_modification item
        \<and> (int64 qty \<longrightarrow> quantity row = qty)
        \<and> (\<not> int64 qty \<longrightarrow> row = item)"
    by (intro exI)
  then show "(\<exists>pre post row.
        item_table session = pre @ item # post
        \<and> item_table (fst (update_item session pk qty hx_request)) = pre @ row # post
        \<and> item_id row = item_id item
        \<and> description row = description item
        \<and> unit_price row = unit_price item
        \<and> last_modification row = last_modification item
        \<and> (int64 qty \<longrightarrow> quantity row = qty)
        \<and> (\<not> int64 qty \<longrightarrow> row = item))
     \<and> user_table (fst (update_item session pk qty hx_request)) = user_table session"
    using usr by (rule conjI)
qed

theorem update_item_changes_only_quantity_witness:
  "where_id item_id 2 (item_table shop) = Inr [nut]
   \<and> (\<exists>pre post row.
        item_table shop = pre @ nut # post
        \<and> item_table (fst (update_item shop 2 0 (Some ''true''))) = pre @ row # post
        \<and> item_id row = item_id nut
        \<and> description row = description nut
        \<and> unit_price row = unit_price nut
        \<and> last_modification row = last_modification nut
        \<and> (int64 0 \<longrightarrow> quantity row = 0)
        \<and> (\<not> int64 0 \<longrightarrow> row = nut))
   \<and> user_table (fst (update_item shop 2 0 (Some ''true''))) = user_table shop"
proof -
  have h: "where_id item_id 2 (item_table shop) = Inr [nut]"
    by (simp add: where_id_def shop_def bolt_def nut_def)
  note t = update_item_changes_only_quantity [where pk = 2 and session = shop and item = nut
        and qty = 0 and hx_request = "Some ''true''", rule_format, OF h]
  show ?thesis by (rule conjI [OF h t])
qed

section \<open>Deleting an item\<close>

lemma delete_item_no_row:
  "where_id item_id pk (item_table session) = Inr [] \<Longrightarrow>
   delete_item session pk = (session, Inl NoResultFound)"
  by (simp add: delete_item_def exec_one_def)

lemma delete_item_one_row:
  "where_id item_id pk (item_table session) = Inr [item] \<Longrightarrow>
   delete_item session pk =
     (commit_delete session pk,
      if item_table (commit_delete session pk) = [] then Inl (HTTPException 404 ''No item found.'')
      else Inr (TemplateResponse ''./index_admin.html''
                  [(''items'', VItems (take 10 (item_table (commit_delete session pk))))]))"
  by (simp add: delete_item_def exec_one_def falsy_def Let_def read_items_first_page)

text \<open>
  C2. An id that no row has: \<open>.one()\<close> raises \<open>NoResultFound\<close> before the guard
  \<open>if not item\<close> is reached, so the request ends as an unhandled fault and not as the
  error page with status 404.
\<close>

theorem delete_item_absent_id_unhandled:
  "delete_item shop 7 = (shop, Inl NoResultFound)
   \<and> respond (snd (delete_item shop 7)) = Unhandled NoResultFound
   \<and> respond (snd (delete_item shop 7)) \<noteq> Responded (http_exception_handler 404 ''Item not found'')"
proof -
  have "where_id item_id 7 (item_table shop) = Inr []"
    by (simp add: where_id_def shop_def bolt_def nut_def)
  then have "delete_item shop 7 = (shop, Inl NoResultFound)"
    by (rule delete_item_no_row)
  then show ?thesis by simp
qed

section \<open>The edit page\<close>

text \<open>
  C6, as the code has it. An id that no row has, in a store that holds an item: when the
  id fits the signed 64-bit range of the store, \<open>.first()\<close> returns \<open>None\<close> and raises
  nothing, so \<open>GET /item/{id}\<close> answers with the edit view, its item absent, beside the
  first page of items. An id outside that range cannot be bound, and the lookup raises
  \<open>OverflowError\<close>, which no handler catches. In a store without items the listing, which
  runs first, raises the not-found error, which the global handler renders.
\<close>

theorem edit_item_absent_id_renders:
  "(int64 pk \<and> filter (\<lambda>r. item_id r = Some pk) (item_table session) = []
      \<and> item_table session \<noteq> [] \<longrightarrow>
      edit_item session pk =
        (session, Inr (TemplateResponse ''./edit_item.html''
                         [(''item'', VItem None), (''items'', VItems (take 10 (item_table session)))]))
      \<and> respond (snd (edit_item session pk)) =
          Responded (TemplateResponse ''./edit_item.html''
                         [(''item'', VItem None), (''items'', VItems (take 10 (item_table session)))]))
   \<and> (\<not> int64 pk \<and> item_table session \<noteq> [] \<longrightarrow>
        edit_item session pk = (session, Inl OverflowError)
        \<and> respond (snd (edit_item session pk)) = Unhandled OverflowError)
   \<and> (item_table session = [] \<longrightarrow>
        edit_item session pk = (session, Inl (HTTPException 404 ''No item found.''))
        \<and> respond (snd (edit_item session pk)) =
            Responded (http_exception_handler 404 ''No item found.''))"
  by (simp add: edit_item_def read_items_first_page exec_first_def where_id_def)

theorem edit_item_absent_id_renders_witness:
  "int64 7 \<and> filter (\<lambda>r. item_id r = Some 7) (item_table shop) = [] \<and> item_table shop \<noteq> []
   \<and> edit_item shop 7 =
        (shop, Inr (TemplateResponse ''./edit_item.html''
                      [(''item'', VItem None), (''items'', VItems (take 10 (item_table shop)))]))
   \<and> \<not> int64 (2 ^ 63)
   \<and> edit_item shop (2 ^ 63) = (shop, Inl OverflowError)
   \<and> item_table bare_shop = []
   \<and> edit_item bare_shop 7 = (bare_shop, Inl (HTTPException 404 ''No item found.''))"
proof -
  have h: "int64 7 \<and> filter (\<lambda>r. item_id r = Some 7) (item_table shop) = [] \<and> item_table shop \<noteq> []"
    by (simp add: shop_def bolt_def nut_def)
  have o: "\<not> int64 (2 ^ 63) \<and> item_table shop \<noteq> []" by (simp add: shop_def)
  have b: "item_table bare_shop = []" by (simp add: bare_shop_def)
  note t1 = edit_item_absent_id_renders [where pk = 7 and session = shop, THEN conjunct1,
      rule_format, OF h, THEN conjunct1]
  note t2 = edit_item_absent_id_renders [where pk = "2 ^ 63" and session = shop, THEN conjunct2,
      THEN conjunct1, rule_format, OF o, THEN conjunct1]
  note t3 = edit_item_absent_id_renders [where pk = 7 and session = bare_shop, THEN conjunct2,
      THEN conjunct2, rule_format, OF b, THEN conjunct1]
  show ?thesis
    using h t1 o [THEN conjunct1] t2 b t3 by (intro conjI) simp_all
qed

text \<open>
  In the example shop no item has the id 7, and the request is answered with the edit
  view: no lookup failure is raised.
\<close>

theorem edit_item_absent_id_counterexample:
  "filter (\<lambda>r. item_id r = Some 7) (item_table shop) = [] \<and> item_table shop \<noteq> []
   \<and> respond (snd (edit_item shop 7)) =
       Responded (TemplateResponse ''./edit_item.html''
                    [(''item'', VItem None), (''items'', VItems [bolt, nut])])"
  by (simp add: edit_item_def read_items_first_page exec_first_def where_id_def shop_def
      bolt_def nut_def)

section \<open>Signing in\<close>

text \<open>
  C5, as the code has it. \<open>POST /signin\<close> answers with the login view and its
  \<open>incorrect\<close> flag when no user has the username and when the hasher reports that the
  password does not verify against the hash of the first user with that username. When
  the hasher reports that it verifies, the answer is the admin view, carrying the submitted
  username and the first page of items, when the store holds an item; when the store
  holds none, the listing raises the not-found error and the global handler renders the
  error page. When the hasher itself raises on the submitted password, the handler does
  not catch it and the request ends as an unhandled fault. Every other case ends with a
  rendered page.
\<close>

theorem signin_outcomes:
  "(filter (\<lambda>u. username u = uname) (user_table session) = [] \<longrightarrow>
      get_user pwd_context session uname pw =
        (session, Inr (TemplateResponse ''./login.html'' [(''incorrect'', VBool True)])))
   \<and> (filter (\<lambda>u. username u = uname) (user_table session) = user # others
        \<and> verify pwd_context pw (password user) = Inr False \<longrightarrow>
      get_user pwd_context session uname pw =
        (session, Inr (TemplateResponse ''./login.html'' [(''incorrect'', VBool True)])))
   \<and> (filter (\<lambda>u. username u = uname) (user_table session) = user # others
        \<and> verify pwd_context pw (password user) = Inr True \<and> item_table session \<noteq> [] \<longrightarrow>
      get_user pwd_context session uname pw =
        (session, Inr (TemplateResponse ''./index_admin.html''
                         [(''username'', VStr uname),
                          (''items'', VItems (take 10 (item_table session)))])))
   \<and> (filter (\<lambda>u. username u = uname) (user_table session) = user # others
        \<and> verify pwd_context pw (password user) = Inr True \<and> item_table session = [] \<longrightarrow>
      get_user pwd_context session uname pw = (session, Inl (HTTPException 404 ''No item found.''))
      \<and> respond (snd (get_user pwd_context session uname pw)) =
          Responded (http_exception_handler 404 ''No item found.''))
   \<and> (filter (\<lambda>u. username u = uname) (user_table session) = user # others
        \<and> verify pwd_context pw (password user) = Inl e \<longrightarrow>
      get_user pwd_context session uname pw = (session, Inl e))
   \<and> (filter (\<lambda>u. username u = uname) (user_table session) = []
        \<or> (filter (\<lambda>u. username u = uname) (user_table session) = user # others
            \<and> verify pwd_context pw (password user) = Inr verified) \<longrightarrow>
      (\<exists>r. respond (snd (get_user pwd_context session uname pw)) = Responded r))"
  by (intro conjI impI)
     (auto simp: get_user_def exec_first_def read_items_first_page)

theorem signin_outcomes_witness:
  "get_user toy_context shop ''guest'' ''Passw0rd!'' =
     (shop, Inr (TemplateResponse ''./login.html'' [(''incorrect'', VBool True)]))
   \<and> get_user toy_context shop ''admin'' ''passw0rd!'' =
     (shop, Inr (TemplateResponse ''./login.html'' [(''incorrect'', VBool True)]))
   \<and> get_user toy_context shop ''admin'' ''Passw0rd!'' =
     (shop, Inr (TemplateResponse ''./index_admin.html''
                   [(''username'', VStr ''admin''), (''items'', VItems (take 10 (item_table shop)))]))
   \<and> get_user toy_context bare_shop ''admin'' ''Passw0rd!'' =
     (bare_shop, Inl (HTTPException 404 ''No item found.''))
   \<and> get_user toy_context shop ''admin'' (''Passw0rd!'' @ [CHR 0x00]) =
     (shop, Inl PasswordValueError)
   \<and> (\<exists>r. respond (snd (get_user toy_context shop ''admin'' ''passw0rd!'')) = Responded r)"
proof -
  have f1: "filter (\<lambda>u. username u = ''guest'') (user_table shop) = []"
    by (simp add: shop_def admin_def)
  have f2: "filter (\<lambda>u. username u = ''admin'') (user_table shop) = admin # []"
    by (simp add: shop_def admin_def)
  have f3: "filter (\<lambda>u. username u = ''admin'') (user_table bare_shop) = admin # []"
    by (simp add: bare_shop_def admin_def)
  have v1: "verify toy_context ''passw0rd!'' (password admin) = Inr False"
    by (simp add: toy_context_def admin_def)
  have v2: "verify toy_context ''Passw0rd!'' (password admin) = Inr True"
    by (simp add: toy_context_def admin_def)
  have v3: "verify toy_context (''Passw0rd!'' @ [CHR 0x00]) (password admin) = Inl PasswordValueError"
    by (simp add: toy_context_def)
  have i1: "item_table shop \<noteq> []" by (simp add: shop_def)
  have i2: "item_table bare_shop = []" by (simp add: bare_shop_def)
  note t = signin_outcomes [where pwd_context = toy_context and user = admin and others = "[]"]
  note a = t [where uname = "''guest''" and session = shop and pw = "''Passw0rd!''",
      THEN conjunct1, rule_format, OF f1]
  note b = t [where uname = "''admin''" and session = shop and pw = "''passw0rd!''",
      THEN conjunct2, THEN conjunct1, rule_format, OF conjI [OF f2 v1]]
  note c = t [where uname = "''admin''" and session = shop and pw = "''Passw0rd!''",
      THEN conjunct2, THEN conjunct2, THEN conjunct1, rule_format, OF conjI [OF f2 conjI [OF v2 i1]]]
  note d = t [where uname = "''admin''" and session = bare_shop and pw = "''Passw0rd!''",
      THEN conjunct2, THEN conjunct2, THEN conjunct2, THEN conjunct1, rule_format,
      OF conjI [OF f3 conjI [OF v2 i2]], THEN conjunct1]
  note e = t [where uname = "''admin''" and session = shop and pw = "''Passw0rd!'' @ [CHR 0x00]"
      and e = PasswordValueError,
      THEN conjunct2, THEN conjunct2, THEN conjunct2, THEN conjunct2, THEN conjunct1, rule_format,
      OF conjI [OF f2 v3]]
  note f = t [where uname = "''admin''" and session = shop and pw = "''passw0rd!''"
      and verified = False,
      THEN conjunct2, THEN conjunct2, THEN conjunct2, THEN conjunct2, THEN conjunct2, rule_format,
      OF disjI2 [OF conjI [OF f2 v1]]]
  show ?thesis by (rule conjI [OF a conjI [OF b conjI [OF c conjI [OF d conjI [OF e f]]]]])
qed

text \<open>
  In a shop without items the administrator signs in with the right password and gets
  the error page of the listing, not the admin view. In the shop with items, a password
  with a NUL byte for the administrator's name makes the hasher raise, and the request
  ends as an unhandled fault.
\<close>

theorem signin_counterexample:
  "filter (\<lambda>u. username u = ''admin'') (user_table bare_shop) = [admin]
   \<and> verify toy_context ''Passw0rd!'' (password admin) = Inr True
   \<and> get_user toy_context bare_shop ''admin'' ''Passw0rd!'' =
       (bare_shop, Inl (HTTPException 404 ''No item found.''))
   \<and> respond (snd (get_user toy_context bare_shop ''admin'' ''Passw0rd!'')) =
       Responded (TemplateResponse ''error.html''
                    [(''status_code'', VInt 404), (''detail'', VStr ''No item found.'')])
   \<and> respond (snd (get_user toy_context shop ''admin'' (''Passw0rd!'' @ [CHR 0x00]))) =
       Unhandled PasswordValueError"
  by (simp add: get_user_def exec_first_def read_items_first_page bare_shop_def shop_def admin_def
      toy_context_def http_exception_handler_def)

section \<open>Creating items\<close>

lemma refresh_item_after_insert:
  assumes "item_id row = Some pk" "pk \<notin> set (table_ids item_id (item_table session))"
  shows "refresh_item (session\<lparr>item_table := insert_row item_id pk row (item_table session)\<rparr>) pk
           = Inr row"
  by (simp add: refresh_item_def filter_id_insert_row [OF assms] exec_first_def)

lemma add_item_overflow:
  "\<not> item_binds item \<Longrightarrow> add_item rowid session item = (session, Inl OverflowError)"
  by (simp add: add_item_def commit_new_item_def)

lemma add_item_key_error:
  assumes "item_binds item"
    and "new_key rowid (table_ids item_id (item_table session)) (item_id item) = Inl e"
  shows "add_item rowid session item = (session, Inl e)"
  by (simp add: add_item_def commit_new_item_def assms)

lemma add_item_stored:
  assumes "item_binds item"
    and key: "new_key rowid (table_ids item_id (item_table session)) (item_id item) = Inr k"
  shows "add_item rowid session item =
           (session\<lparr>item_table :=
              insert_row item_id k (item\<lparr>item_id := Some k\<rparr>) (item_table session)\<rparr>,
            Inr (ItemJSON (item\<lparr>item_id := Some k\<rparr>)))"
proof -
  have "refresh_item (session\<lparr>item_table :=
          insert_row item_id k (item\<lparr>item_id := Some k\<rparr>) (item_table session)\<rparr>) k
        = Inr (item\<lparr>item_id := Some k\<rparr>)"
    by (rule refresh_item_after_insert) (simp_all add: new_key_fresh [OF key])
  then show ?thesis
    by (simp add: add_item_def commit_new_item_def assms)
qed

lemma create_item_add_item:
  "create_item utcnow rowid session item =
     add_item rowid session (item\<lparr>last_modification := Some utcnow\<rparr>)"
  by (simp add: create_item_def add_item_def Let_def)

lemma add_item_returned:
  assumes "add_item rowid session item = (session', Inr (ItemJSON row))"
  shows "\<exists>k. item_binds item
           \<and> new_key rowid (table_ids item_id (item_table session)) (item_id item) = Inr k
           \<and> k \<notin> set (table_ids item_id (item_table session))
           \<and> row = item\<lparr>item_id := Some k\<rparr>
           \<and> session' = session\<lparr>item_table :=
                 insert_row item_id k (item\<lparr>item_id := Some k\<rparr>) (item_table session)\<rparr>"
proof (cases "item_binds item")
  case False
  from assms show ?thesis unfolding add_item_overflow [OF False] by simp
next
  case True
  show ?thesis
  proof (cases "new_key rowid (table_ids item_id (item_table session)) (item_id item)")
    case (Inl e)
    from assms show ?thesis unfolding add_item_key_error [OF True Inl] by simp
  next
    case (Inr k)
    note assms [unfolded add_item_stored [OF True Inr]]
    then have r: "row = item\<lparr>item_id := Some k\<rparr>"
      and s: "session' = session\<lparr>item_table :=
                insert_row item_id k (item\<lparr>item_id := Some k\<rparr>) (item_table session)\<rparr>"
      by auto
    show ?thesis
    proof (intro exI [of _ k] conjI)
      show "item_binds item" by (rule True)
      show "new_key rowid (table_ids item_id (item_table session)) (item_id item) = Inr k"
        by (rule Inr)
      show "k \<notin> set (table_ids item_id (item_table session))" by (rule new_key_fresh [OF Inr])
      show "row = item\<lparr>item_id := Some k\<rparr>" by (rule r)
      show "session' = session\<lparr>item_table :=
              insert_row item_id k (item\<lparr>item_id := Some k\<rparr>) (item_table session)\<rparr>"
        by (rule s)
    qed
  qed
qed

lemma add_item_failed:
  assumes "snd (add_item rowid session item) = Inl e"
  shows "(\<not> item_binds item \<and> e = OverflowError)
         \<or> (item_binds item
             \<and> new_key rowid (table_ids item_id (item_table session)) (item_id item) = Inl e)"
proof (cases "item_binds item")
  case False
  from assms show ?thesis unfolding add_item_overflow [OF False] using False by simp
next
  case True
  show ?thesis
  proof (cases "new_key rowid (table_ids item_id (item_table session)) (item_id item)")
    case (Inl e')
    from assms show ?thesis unfolding add_item_key_error [OF True Inl] using True Inl by simp
  next
    case (Inr k)
    from assms show ?thesis unfolding add_item_stored [OF True Inr] by simp
  qed
qed

lemma stamp_after_id:
  "(item\<lparr>item_id := a\<rparr>)\<lparr>last_modification := b\<rparr> = (item\<lparr>last_modification := b\<rparr>)\<lparr>item_id := a\<rparr>"
  by (cases item) simp

lemma item_binds_stamp [simp]:
  "item_binds (item\<lparr>last_modification := t\<rparr>) = item_binds item"
  by (simp add: item_binds_def)

text \<open>
  C8. The second \<open>POST /create_item\<close> handler does what the first does, without the
  stamp: the first handler on a payload is the second handler on the stamped payload.
  Whenever the second handler returns an item, that item carries the payload's own
  \<open>last_modification\<close>, and the first handler returns the same item with the stamp, stored
  at the same place of the table; and one handler fails exactly when the other does, with
  the same fault.
\<close>

theorem add_item_is_create_item_without_stamp:
  "create_item utcnow rowid session item =
     add_item rowid session (item\<lparr>last_modification := Some utcnow\<rparr>)
   \<and> (\<forall>session' row. add_item rowid session item = (session', Inr (ItemJSON row)) \<longrightarrow>
        last_modification row = last_modification item
        \<and> (\<exists>pk. item_table session' = insert_row item_id pk row (item_table session)
              \<and> user_table session' = user_table session
              \<and> create_item utcnow rowid session item =
                  (session\<lparr>item_table :=
                     insert_row item_id pk (row\<lparr>last_modification := Some utcnow\<rparr>) (item_table session)\<rparr>,
                   Inr (ItemJSON (row\<lparr>last_modification := Some utcnow\<rparr>)))))
   \<and> (\<forall>e. (snd (add_item rowid session item) = Inl e)
          = (snd (create_item utcnow rowid session item) = Inl e))"
proof -
  let ?ids = "table_ids item_id (item_table session)"
  let ?stamped = "item\<lparr>last_modification := Some utcnow\<rparr>"
  have eq: "create_item utcnow rowid session item = add_item rowid session ?stamped"
    by (rule create_item_add_item)
  have sid: "item_id ?stamped = item_id item" by simp
  have ok: "\<forall>session' row. add_item rowid session item = (session', Inr (ItemJSON row)) \<longrightarrow>
        last_modification row = last_modification item
        \<and> (\<exists>pk. item_table session' = insert_row item_id pk row (item_table session)
              \<and> user_table session' = user_table session
              \<and> create_item utcnow rowid session item =
                  (session\<lparr>item_table :=
                     insert_row item_id pk (row\<lparr>last_modification := Some utcnow\<rparr>) (item_table session)\<rparr>,
                   Inr (ItemJSON (row\<lparr>last_modification := Some utcnow\<rparr>))))"
  proof (intro allI impI)
    fix session' row
    assume a: "add_item rowid session item = (session', Inr (ItemJSON row))"
    from add_item_returned [OF a] obtain k where
      binds: "item_binds item"
      and key: "new_key rowid ?ids (item_id item) = Inr k"
      and row: "row = item\<lparr>item_id := Some k\<rparr>"
      and s': "session' = session\<lparr>item_table :=
                 insert_row item_id k (item\<lparr>item_id := Some k\<rparr>) (item_table session)\<rparr>"
      by (elim exE conjE)
    have binds': "item_binds ?stamped" using binds by simp
    have key': "new_key rowid ?ids (item_id ?stamped) = Inr k" using key by simp
    note c = add_item_stored [OF binds' key']
    have r: "row\<lparr>last_modification := Some utcnow\<rparr> = ?stamped\<lparr>item_id := Some k\<rparr>"
      unfolding row by (rule stamp_after_id)
    have l: "last_modification row = last_modification item" unfolding row by simp
    have "item_table session' = insert_row item_id k row (item_table session)
              \<and> user_table session' = user_table session
              \<and> create_item utcnow rowid session item =
                  (session\<lparr>item_table :=
                     insert_row item_id k (row\<lparr>last_modification := Some utcnow\<rparr>) (item_table session)\<rparr>,
                   Inr (ItemJSON (row\<lparr>last_modification := Some utcnow\<rparr>)))"
      unfolding eq c r unfolding s' row by simp
    then have "\<exists>pk. item_table session' = insert_row item_id pk row (item_table session)
              \<and> user_table session' = user_table session
              \<and> create_item utcnow rowid session item =
                  (session\<lparr>item_table :=
                     insert_row item_id pk (row\<lparr>last_modification := Some utcnow\<rparr>) (item_table session)\<rparr>,
                   Inr (ItemJSON (row\<lparr>last_modification := Some utcnow\<rparr>)))"
      by (rule exI)
    with l show "last_modification row = last_modification item
        \<and> (\<exists>pk. item_table session' = insert_row item_id pk row (item_table session)
              \<and> user_table session' = user_table session
              \<and> create_item utcnow rowid session item =
                  (session\<lparr>item_table :=
                     insert_row item_id pk (row\<lparr>last_modification := Some utcnow\<rparr>) (item_table session)\<rparr>,
                   Inr (ItemJSON (row\<lparr>last_modification := Some utcnow\<rparr>))))"
      by (rule conjI)
  qed
  have one_way: "snd (add_item rowid session b) = Inl e"
    if "snd (add_item rowid session a) = Inl e" "item_binds b = item_binds a" "item_id b = item_id a"
    for a b :: Item and e
  proof -
    from add_item_failed [OF that(1)] show ?thesis
    proof (elim disjE conjE)
      assume "\<not> item_binds a" "e = OverflowError"
      then show ?thesis using that(2) by (simp add: add_item_overflow)
    next
      assume "item_binds a" "new_key rowid ?ids (item_id a) = Inl e"
      then have "item_binds b" "new_key rowid ?ids (item_id b) = Inl e" using that(2,3) by simp_all
      then show ?thesis by (simp add: add_item_key_error)
    qed
  qed
  have fails: "\<forall>e. (snd (add_item rowid session item) = Inl e)
                 = (snd (create_item utcnow rowid session item) = Inl e)"
  proof (intro allI iffI)
    fix e
    assume "snd (add_item rowid session item) = Inl e"
    from one_way [OF this, of ?stamped] show "snd (create_item utcnow rowid session item) = Inl e"
      unfolding eq by simp
  next
    fix e
    assume "snd (create_item utcnow rowid session item) = Inl e"
    then have "snd (add_item rowid session ?stamped) = Inl e" unfolding eq .
    from one_way [OF this, of item] show "snd (add_item rowid session item) = Inl e" by simp
  qed
  show ?thesis by (rule conjI [OF eq conjI [OF ok fails]])
qed

lemma shop_item_ids: "table_ids item_id (item_table shop) = [1, 2]"
  by (simp add: table_ids_def shop_def bolt_def nut_def)

lemma shop_next_id: "next_id rowid [1, 2] = Inr 3"
  by (simp add: next_id_def)

lemma shop_insert_last:
  "item_id row = Some 3 \<Longrightarrow> insert_row item_id 3 row (item_table shop) = [bolt, nut, row]"
  by (simp add: shop_def bolt_def nut_def)

lemma washer_binds: "item_binds washer" "item_id washer = None"
  by (simp_all add: item_binds_def int64_opt_def int64_def washer_def)

lemma add_item_shop_washer:
  "add_item rowid shop washer =
     (shop\<lparr>item_table := [bolt, nut, washer\<lparr>item_id := Some 3\<rparr>]\<rparr>,
      Inr (ItemJSON (washer\<lparr>item_id := Some 3\<rparr>)))"
proof -
  have k: "new_key rowid (table_ids item_id (item_table shop)) (item_id washer) = Inr 3"
    by (simp add: new_key_def washer_binds shop_item_ids shop_next_id)
  show ?thesis unfolding add_item_stored [OF washer_binds(1) k] by (simp add: shop_insert_last)
qed

theorem add_item_is_create_item_without_stamp_witness:
  "add_item 0 shop washer =
     (shop\<lparr>item_table := [bolt, nut, washer\<lparr>item_id := Some 3\<rparr>]\<rparr>,
      Inr (ItemJSON (washer\<lparr>item_id := Some 3\<rparr>)))
   \<and> (last_modification (washer\<lparr>item_id := Some 3\<rparr>) = last_modification washer
      \<and> (\<exists>pk. item_table (shop\<lparr>item_table := [bolt, nut, washer\<lparr>item_id := Some 3\<rparr>]\<rparr>)
                 = insert_row item_id pk (washer\<lparr>item_id := Some 3\<rparr>) (item_table shop)
             \<and> user_table (shop\<lparr>item_table := [bolt, nut, washer\<lparr>item_id := Some 3\<rparr>]\<rparr>)
                 = user_table shop
             \<and> create_item 200 0 shop washer
                 = (shop\<lparr>item_table := insert_row item_id pk
                      (washer\<lparr>item_id := Some 3\<rparr>\<lparr>last_modification := Some 200\<rparr>)
                      (item_table shop)\<rparr>,
                    Inr (ItemJSON (washer\<lparr>item_id := Some 3\<rparr>\<lparr>last_modification := Some 200\<rparr>)))))"
proof -
  note a = add_item_shop_washer [of 0]
  note t = add_item_is_create_item_without_stamp [where utcnow = 200 and rowid = 0
        and session = shop and item = washer, THEN conjunct2, THEN conjunct1, rule_format, OF a]
  show ?thesis by (rule conjI [OF a t])
qed

text \<open>
  C4, as the code has it. The first \<open>POST /create_item\<close> handler overwrites the
  payload's \<open>last_modification\<close> with the server's clock reading and then persists.
  The integers of the payload must fit the store's signed 64-bit columns, or the INSERT
  cannot be bound. A payload without an id is stored under the key the store chooses
  (one more than the largest key, in a store whose keys are below the largest 64-bit
  value); a payload with an id that no row has is stored under that id; a payload with
  an id that a row already has breaks the primary key. A request that fails leaves the
  store unchanged and returns no item. Whenever an item is returned, its id is present,
  its \<open>last_modification\<close> is the clock reading (so no earlier than any time the clock
  had reached before), and it is a row of the new store.
\<close>

theorem create_item_stamps_and_returns:
  "(\<not> item_binds item \<longrightarrow>
      create_item utcnow rowid session item = (session, Inl OverflowError))
   \<and> (item_binds item \<and> item_id item = None
        \<and> next_id rowid (table_ids item_id (item_table session)) = Inr k \<longrightarrow>
      create_item utcnow rowid session item =
        (session\<lparr>item_table :=
           insert_row item_id k (item\<lparr>last_modification := Some utcnow, item_id := Some k\<rparr>)
             (item_table session)\<rparr>,
         Inr (ItemJSON (item\<lparr>last_modification := Some utcnow, item_id := Some k\<rparr>))))
   \<and> (item_binds item \<and> item_id item = None
        \<and> next_id rowid (table_ids item_id (item_table session)) = Inl e \<longrightarrow>
      create_item utcnow rowid session item = (session, Inl e))
   \<and> ((\<forall>j\<in>set (table_ids item_id (item_table session)). j < 2 ^ 63 - 1) \<longrightarrow>
        (\<exists>k. next_id rowid (table_ids item_id (item_table session)) = Inr k))
   \<and> (item_binds item \<and> item_id item = Some i
        \<and> i \<notin> set (table_ids item_id (item_table session)) \<longrightarrow>
      create_item utcnow rowid session item =
        (session\<lparr>item_table :=
           insert_row item_id i (item\<lparr>last_modification := Some utcnow\<rparr>) (item_table session)\<rparr>,
         Inr (ItemJSON (item\<lparr>last_modification := Some utcnow\<rparr>))))
   \<and> (item_binds item \<and> item_id item = Some i
        \<and> i \<in> set (table_ids item_id (item_table session)) \<longrightarrow>
      create_item utcnow rowid session item = (session, Inl IntegrityError))
   \<and> (\<forall>session' row. create_item utcnow rowid session item = (session', Inr (ItemJSON row)) \<longrightarrow>
        item_id row \<noteq> None
        \<and> last_modification row = Some utcnow
        \<and> row \<in> set (item_table session')
        \<and> (request_start \<le> utcnow \<longrightarrow>
             (\<exists>t. last_modification row = Some t \<and> request_start \<le> t)))"
proof -
  let ?ids = "table_ids item_id (item_table session)"
  let ?stamped = "item\<lparr>last_modification := Some utcnow\<rparr>"
  note eq = create_item_add_item [of utcnow rowid session item]
  have overflow: "\<not> item_binds item \<longrightarrow>
      create_item utcnow rowid session item = (session, Inl OverflowError)"
    unfolding eq by (simp add: add_item_overflow)
  have none: "item_binds item \<and> item_id item = None \<and> next_id rowid ?ids = Inr k \<longrightarrow>
      create_item utcnow rowid session item =
        (session\<lparr>item_table :=
           insert_row item_id k (item\<lparr>last_modification := Some utcnow, item_id := Some k\<rparr>)
             (item_table session)\<rparr>,
         Inr (ItemJSON (item\<lparr>last_modification := Some utcnow, item_id := Some k\<rparr>)))"
  proof (intro impI, elim conjE)
    assume "item_binds item" "item_id item = None" "next_id rowid ?ids = Inr k"
    then have "item_binds ?stamped" "new_key rowid ?ids (item_id ?stamped) = Inr k"
      by (simp_all add: new_key_def)
    from add_item_stored [OF this] show "create_item utcnow rowid session item =
        (session\<lparr>item_table :=
           insert_row item_id k (item\<lparr>last_modification := Some utcnow, item_id := Some k\<rparr>)
             (item_table session)\<rparr>,
         Inr (ItemJSON (item\<lparr>last_modification := Some utcnow, item_id := Some k\<rparr>)))"
      by (simp only: eq)
  qed
  have no_key: "item_binds item \<and> item_id item = None \<and> next_id rowid ?ids = Inl e \<longrightarrow>
      create_item utcnow rowid session item = (session, Inl e)"
  proof (intro impI, elim conjE)
    assume "item_binds item" "item_id item = None" "next_id rowid ?ids = Inl e"
    then have "item_binds ?stamped" "new_key rowid ?ids (item_id ?stamped) = Inl e"
      by (simp_all add: new_key_def)
    from add_item_key_error [OF this] show "create_item utcnow rowid session item = (session, Inl e)"
      by (simp only: eq)
  qed
  have ordinary: "(\<forall>j\<in>set ?ids. j < 2 ^ 63 - 1) \<longrightarrow> (\<exists>k. next_id rowid ?ids = Inr k)"
    using next_id_ordinary [of ?ids rowid] by blast
  have free: "item_binds item \<and> item_id item = Some i \<and> i \<notin> set ?ids \<longrightarrow>
      create_item utcnow rowid session item =
        (session\<lparr>item_table :=
           insert_row item_id i (item\<lparr>last_modification := Some utcnow\<rparr>) (item_table session)\<rparr>,
         Inr (ItemJSON (item\<lparr>last_modification := Some utcnow\<rparr>)))"
  proof (intro impI, elim conjE)
    assume a: "item_binds item" "item_id item = Some i" "i \<notin> set ?ids"
    then have b: "item_binds ?stamped" "new_key rowid ?ids (item_id ?stamped) = Inr i"
      by (simp_all add: new_key_def)
    have same: "?stamped\<lparr>item_id := Some i\<rparr> = ?stamped" using a(2) by simp
    from add_item_stored [OF b] show "create_item utcnow rowid session item =
        (session\<lparr>item_table :=
           insert_row item_id i (item\<lparr>last_modification := Some utcnow\<rparr>) (item_table session)\<rparr>,
         Inr (ItemJSON (item\<lparr>last_modification := Some utcnow\<rparr>)))"
      unfolding same by (simp only: eq)
  qed
  have taken: "item_binds item \<and> item_id item = Some i \<and> i \<in> set ?ids \<longrightarrow>
      create_item utcnow rowid session item = (session, Inl IntegrityError)"
  proof (intro impI, elim conjE)
    assume "item_binds item" "item_id item = Some i" "i \<in> set ?ids"
    then have "item_binds ?stamped" "new_key rowid ?ids (item_id ?stamped) = Inl IntegrityError"
      by (simp_all add: new_key_def)
    from add_item_key_error [OF this]
    show "create_item utcnow rowid session item = (session, Inl IntegrityError)"
      by (simp only: eq)
  qed
  have returned: "\<forall>session' row. create_item utcnow rowid session item = (session', Inr (ItemJSON row)) \<longrightarrow>
        item_id row \<noteq> None
        \<and> last_modification row = Some utcnow
        \<and> row \<in> set (item_table session')
        \<and> (request_start \<le> utcnow \<longrightarrow>
             (\<exists>t. last_modification row = Some t \<and> request_start \<le> t))"
  proof (intro allI impI)
    fix session' row
    assume "create_item utcnow rowid session item = (session', Inr (ItemJSON row))"
    then have "add_item rowid session ?stamped = (session', Inr (ItemJSON row))"
      by (simp only: eq)
    from add_item_returned [OF this] obtain pk where
      row: "row = item\<lparr>last_modification := Some utcnow, item_id := Some pk\<rparr>"
      and s': "session' = session\<lparr>item_table :=
                 insert_row item_id pk (item\<lparr>last_modification := Some utcnow, item_id := Some pk\<rparr>)
                   (item_table session)\<rparr>"
      by (elim exE conjE)
    show "item_id row \<noteq> None
        \<and> last_modification row = Some utcnow
        \<and> row \<in> set (item_table session')
        \<and> (request_start \<le> utcnow \<longrightarrow>
             (\<exists>t. last_modification row = Some t \<and> request_start \<le> t))"
      unfolding s' row by simp
  qed
  show ?thesis
    by (rule conjI [OF overflow conjI [OF none conjI [OF no_key conjI [OF ordinary
          conjI [OF free conjI [OF taken returned]]]]]])
qed

theorem create_item_stamps_and_returns_witness:
  "create_item 200 0 shop washer
     = (shop\<lparr>item_table := [bolt, nut, washer\<lparr>last_modification := Some 200, item_id := Some 3\<rparr>]\<rparr>,
        Inr (ItemJSON (washer\<lparr>last_modification := Some 200, item_id := Some 3\<rparr>)))
   \<and> create_item 200 0 shop (washer\<lparr>item_id := Some 0\<rparr>)
     = (shop\<lparr>item_table := [washer\<lparr>item_id := Some 0, last_modification := Some 200\<rparr>, bolt, nut]\<rparr>,
        Inr (ItemJSON (washer\<lparr>item_id := Some 0, last_modification := Some 200\<rparr>)))
   \<and> create_item 200 0 shop (washer\<lparr>item_id := Some 1\<rparr>) = (shop, Inl IntegrityError)
   \<and> create_item 200 0 shop (washer\<lparr>quantity := 2 ^ 63\<rparr>) = (shop, Inl OverflowError)
   \<and> create_item 200 0 (shop\<lparr>item_table := [bolt\<lparr>item_id := Some (2 ^ 63 - 1)\<rparr>]\<rparr>) washer
     = (shop\<lparr>item_table := [bolt\<lparr>item_id := Some (2 ^ 63 - 1)\<rparr>]\<rparr>, Inl OperationalError)
   \<and> (\<exists>k. next_id 0 (table_ids item_id (item_table shop)) = Inr k)
   \<and> (\<exists>t. last_modification (washer\<lparr>last_modification := Some 200, item_id := Some 3\<rparr>) = Some t
          \<and> 150 \<le> t)"
proof -
  let ?full = "shop\<lparr>item_table := [bolt\<lparr>item_id := Some (2 ^ 63 - 1)\<rparr>]\<rparr>"
  note t = create_item_stamps_and_returns [where utcnow = 200 and rowid = 0 and request_start = 150]
  have n: "item_binds washer \<and> item_id washer = None
           \<and> next_id 0 (table_ids item_id (item_table shop)) = Inr 3"
    by (simp add: washer_binds shop_item_ids shop_next_id)
  note a0 = t [where session = shop and item = washer and k = 3,
      THEN conjunct2, THEN conjunct1, rule_format, OF n]
  have a: "create_item 200 0 shop washer
     = (shop\<lparr>item_table := [bolt, nut, washer\<lparr>last_modification := Some 200, item_id := Some 3\<rparr>]\<rparr>,
        Inr (ItemJSON (washer\<lparr>last_modification := Some 200, item_id := Some 3\<rparr>)))"
    unfolding a0 by (simp add: shop_insert_last)
  have f: "item_binds (washer\<lparr>item_id := Some 0\<rparr>) \<and> item_id (washer\<lparr>item_id := Some 0\<rparr>) = Some 0
           \<and> 0 \<notin> set (table_ids item_id (item_table shop))"
    by (simp add: item_binds_def int64_opt_def int64_def washer_def shop_item_ids)
  note b0 = t [where session = shop and item = "washer\<lparr>item_id := Some 0\<rparr>" and i = 0,
      THEN conjunct2, THEN conjunct2, THEN conjunct2, THEN conjunct2, THEN conjunct1,
      rule_format, OF f]
  have b: "create_item 200 0 shop (washer\<lparr>item_id := Some 0\<rparr>)
     = (shop\<lparr>item_table := [washer\<lparr>item_id := Some 0, last_modification := Some 200\<rparr>, bolt, nut]\<rparr>,
        Inr (ItemJSON (washer\<lparr>item_id := Some 0, last_modification := Some 200\<rparr>)))"
    unfolding b0 by (simp add: shop_def bolt_def nut_def)
  have g: "item_binds (washer\<lparr>item_id := Some 1\<rparr>) \<and> item_id (washer\<lparr>item_id := Some 1\<rparr>) = Some 1
           \<and> 1 \<in> set (table_ids item_id (item_table shop))"
    by (simp add: item_binds_def int64_opt_def int64_def washer_def shop_item_ids)
  note c = t [where session = shop and item = "washer\<lparr>item_id := Some 1\<rparr>" and i = 1,
      THEN conjunct2, THEN conjunct2, THEN conjunct2, THEN conjunct2, THEN conjunct2,
      THEN conjunct1, rule_format, OF g]
  have h: "\<not> item_binds (washer\<lparr>quantity := 2 ^ 63\<rparr>)"
    by (simp add: item_binds_def int64_def)
  note d = t [where session = shop and item = "washer\<lparr>quantity := 2 ^ 63\<rparr>",
      THEN conjunct1, rule_format, OF h]
  have m: "item_binds washer \<and> item_id washer = None
           \<and> next_id 0 (table_ids item_id (item_table ?full)) = Inl OperationalError"
    by (simp add: washer_binds table_ids_def next_id_def)
  note e = t [where session = ?full and item = washer and e = OperationalError,
      THEN conjunct2, THEN conjunct2, THEN conjunct1, rule_format, OF m]
  have o: "\<forall>j\<in>set (table_ids item_id (item_table shop)). j < 2 ^ 63 - 1"
    by (simp add: shop_item_ids)
  note p = t [where session = shop and item = washer,
      THEN conjunct2, THEN conjunct2, THEN conjunct2, THEN conjunct1, THEN mp, OF o]
  note q = t [where session = shop and item = washer,
      THEN conjunct2, THEN conjunct2, THEN conjunct2, THEN conjunct2, THEN conjunct2,
      THEN conjunct2, rule_format, OF a, THEN conjunct2, THEN conjunct2, THEN conjunct2,
      rule_format]
  have r: "\<exists>t. last_modification (washer\<lparr>last_modification := Some 200, item_id := Some 3\<rparr>) = Some t
          \<and> 150 \<le> t"
    by (rule q) simp
  show ?thesis by (rule conjI [OF a conjI [OF b conjI [OF c conjI [OF d conjI [OF e conjI [OF p r]]]]]])
qed

text \<open>
  Two well-formed payloads for which no item is returned: one carries the id of the
  stored bolt, and the commit breaks the primary key; the other carries the quantity
  \<open>2 ^ 63\<close>, which the store cannot bind.
\<close>

theorem create_item_no_item_counterexample:
  "create_item 200 0 shop (washer\<lparr>item_id := Some 1\<rparr>) = (shop, Inl IntegrityError)
   \<and> create_item 200 0 shop (washer\<lparr>quantity := 2 ^ 63\<rparr>) = (shop, Inl OverflowError)"
  by (simp add: create_item_def commit_new_item_def item_binds_def int64_opt_def int64_def
      new_key_def table_ids_def washer_def shop_def bolt_def nut_def)

section \<open>Creating users\<close>

lemma refresh_user_after_insert:
  assumes "user_id row = Some pk" "pk \<notin> set (table_ids user_id (user_table session))"
  shows "refresh_user (session\<lparr>user_table := insert_row user_id pk row (user_table session)\<rparr>) pk
           = Inr row"
  by (simp add: refresh_user_def filter_id_insert_row [OF assms] exec_first_def)

lemma user_binds_password [simp]: "user_binds (user\<lparr>password := d\<rparr>) = user_binds user"
  by (simp add: user_binds_def)

lemma create_user_hasher_raises:
  "hash pwd_context (password user) = Inl e \<Longrightarrow>
   create_user pwd_context rowid session user = (session, Inl e)"
  by (simp add: create_user_def)

lemma create_user_overflow:
  "hash pwd_context (password user) = Inr digest \<Longrightarrow> \<not> user_binds user \<Longrightarrow>
   create_user pwd_context rowid session user = (session, Inl OverflowError)"
  by (simp add: create_user_def commit_new_user_def Let_def)

lemma create_user_key_error:
  assumes "hash pwd_context (password user) = Inr digest" "user_binds user"
    and "new_key rowid (table_ids user_id (user_table session)) (user_id user) = Inl e"
  shows "create_user pwd_context rowid session user = (session, Inl e)"
  by (simp add: create_user_def commit_new_user_def Let_def assms)

lemma create_user_stored:
  assumes "hash pwd_context (password user) = Inr digest" "user_binds user"
    and key: "new_key rowid (table_ids user_id (user_table session)) (user_id user) = Inr k"
  shows "create_user pwd_context rowid session user =
           (session\<lparr>user_table :=
              insert_row user_id k (user\<lparr>password := digest, user_id := Some k\<rparr>)
                (user_table session)\<rparr>,
            Inr (UserJSON (user\<lparr>password := digest, user_id := Some k\<rparr>)))"
proof -
  have "refresh_user (session\<lparr>user_table :=
          insert_row user_id k (user\<lparr>password := digest, user_id := Some k\<rparr>)
            (user_table session)\<rparr>) k
        = Inr (user\<lparr>password := digest, user_id := Some k\<rparr>)"
    by (rule refresh_user_after_insert) (simp_all add: new_key_fresh [OF key])
  then show ?thesis
    by (simp add: create_user_def commit_new_user_def Let_def assms)
qed

lemma create_user_returned:
  assumes "create_user pwd_context rowid session user = (session', Inr (UserJSON row))"
  shows "\<exists>digest k. hash pwd_context (password user) = Inr digest
           \<and> user_binds user
           \<and> new_key rowid (table_ids user_id (user_table session)) (user_id user) = Inr k
           \<and> row = user\<lparr>password := digest, user_id := Some k\<rparr>
           \<and> session' = session\<lparr>user_table :=
                 insert_row user_id k (user\<lparr>password := digest, user_id := Some k\<rparr>)
                   (user_table session)\<rparr>"
proof (cases "hash pwd_context (password user)")
  case (Inl e)
  from assms show ?thesis unfolding create_user_hasher_raises [OF Inl] by simp
next
  case (Inr digest)
  note h = Inr
  show ?thesis
  proof (cases "user_binds user")
    case False
    from assms show ?thesis unfolding create_user_overflow [OF h False] by simp
  next
    case True
    show ?thesis
    proof (cases "new_key rowid (table_ids user_id (user_table session)) (user_id user)")
      case (Inl e)
      from assms show ?thesis unfolding create_user_key_error [OF h True Inl] by simp
    next
      case (Inr k)
      note assms [unfolded create_user_stored [OF h True Inr]]
      then have r: "row = user\<lparr>password := digest, user_id := Some k\<rparr>"
        and s: "session' = session\<lparr>user_table :=
                  insert_row user_id k (user\<lparr>password := digest, user_id := Some k\<rparr>)
                    (user_table session)\<rparr>"
        by auto
      show ?thesis
      proof (intro exI [of _ digest] exI [of _ k] conjI)
        show "hash pwd_context (password user) = Inr digest" by (rule h)
        show "user_binds user" by (rule True)
        show "new_key rowid (table_ids user_id (user_table session)) (user_id user) = Inr k"
          by (rule Inr)
        show "row = user\<lparr>password := digest, user_id := Some k\<rparr>" by (rule r)
        show "session' = session\<lparr>user_table :=
                insert_row user_id k (user\<lparr>password := digest, user_id := Some k\<rparr>)
                  (user_table session)\<rparr>"
          by (rule s)
      qed
    qed
  qed
qed

text \<open>
  C7, as the code has it. \<open>POST /create_user\<close> hands the payload's password to the
  hasher; when the hasher raises, the request ends as that fault and nothing is persisted.
  Otherwise the password is replaced with the digest and the user is persisted: under
  the key the store chooses when the payload carries no id, under the payload's id when
  no row has it; an id that does not fit the store's 64-bit column cannot be bound, and
  an id that a row already has breaks the primary key. A request that fails leaves the
  store unchanged and returns no user. Whenever a user is returned, it is the row that
  was stored, the one new row of the user table: its password is the digest (so it is
  not the plaintext, for a digest that differs from the plaintext) and the other fields
  are the payload's.
\<close>

theorem create_user_stores_digest:
  "(hash pwd_context (password user) = Inl e \<longrightarrow>
      create_user pwd_context rowid session user = (session, Inl e))
   \<and> (hash pwd_context (password user) = Inr digest \<and> \<not> user_binds user \<longrightarrow>
      create_user pwd_context rowid session user = (session, Inl OverflowError))
   \<and> (hash pwd_context (password user) = Inr digest \<and> user_binds user \<and> user_id user = None
        \<and> next_id rowid (table_ids user_id (user_table session)) = Inr k \<longrightarrow>
      create_user pwd_context rowid session user =
        (session\<lparr>user_table :=
           insert_row user_id k (user\<lparr>password := digest, user_id := Some k\<rparr>)
             (user_table session)\<rparr>,
         Inr (UserJSON (user\<lparr>password := digest, user_id := Some k\<rparr>))))
   \<and> (hash pwd_context (password user) = Inr digest \<and> user_binds user \<and> user_id user = None
        \<and> next_id rowid (table_ids user_id (user_table session)) = Inl e \<longrightarrow>
      create_user pwd_context rowid session user = (session, Inl e))
   \<and> ((\<forall>j\<in>set (table_ids user_id (user_table session)). j < 2 ^ 63 - 1) \<longrightarrow>
        (\<exists>k. next_id rowid (table_ids user_id (user_table session)) = Inr k))
   \<and> (hash pwd_context (password user) = Inr digest \<and> user_binds user \<and> user_id user = Some i
        \<and> i \<notin> set (table_ids user_id (user_table session)) \<longrightarrow>
      create_user pwd_context rowid session user =
        (session\<lparr>user_table :=
           insert_row user_id i (user\<lparr>password := digest\<rparr>) (user_table session)\<rparr>,
         Inr (UserJSON (user\<lparr>password := digest\<rparr>))))
   \<and> (hash pwd_context (password user) = Inr digest \<and> user_binds user \<and> user_id user = Some i
        \<and> i \<in> set (table_ids user_id (user_table session)) \<longrightarrow>
      create_user pwd_context rowid session user = (session, Inl IntegrityError))
   \<and> (\<forall>session' row. create_user pwd_context rowid session user = (session', Inr (UserJSON row)) \<longrightarrow>
        hash pwd_context (password user) = Inr (password row)
        \<and> (hash pwd_context (password user) \<noteq> Inr (password user) \<longrightarrow>
             password row \<noteq> password user)
        \<and> user_id row \<noteq> None
        \<and> email row = email user
        \<and> username row = username user
        \<and> is_superuser row = is_superuser user
        \<and> is_active row = is_active user
        \<and> set (user_table session') = insert row (set (user_table session))
        \<and> item_table session' = item_table session)"
proof -
  let ?ids = "table_ids user_id (user_table session)"
  have raises: "hash pwd_context (password user) = Inl e \<longrightarrow>
      create_user pwd_context rowid session user = (session, Inl e)"
    by (simp add: create_user_hasher_raises)
  have overflow: "hash pwd_context (password user) = Inr digest \<and> \<not> user_binds user \<longrightarrow>
      create_user pwd_context rowid session user = (session, Inl OverflowError)"
    by (simp add: create_user_overflow)
  have none: "hash pwd_context (password user) = Inr digest \<and> user_binds user \<and> user_id user = None
        \<and> next_id rowid ?ids = Inr k \<longrightarrow>
      create_user pwd_context rowid session user =
        (session\<lparr>user_table :=
           insert_row user_id k (user\<lparr>password := digest, user_id := Some k\<rparr>)
             (user_table session)\<rparr>,
         Inr (UserJSON (user\<lparr>password := digest, user_id := Some k\<rparr>)))"
  proof (intro impI, elim conjE)
    assume a: "hash pwd_context (password user) = Inr digest" "user_binds user"
      and "user_id user = None" "next_id rowid ?ids = Inr k"
    then have "new_key rowid ?ids (user_id user) = Inr k" by (simp add: new_key_def)
    from create_user_stored [OF a this] show "create_user pwd_context rowid session user =
        (session\<lparr>user_table :=
           insert_row user_id k (user\<lparr>password := digest, user_id := Some k\<rparr>)
             (user_table session)\<rparr>,
         Inr (UserJSON (user\<lparr>password := digest, user_id := Some k\<rparr>)))" .
  qed
  have no_key: "hash pwd_context (password user) = Inr digest \<and> user_binds user \<and> user_id user = None
        \<and> next_id rowid ?ids = Inl e \<longrightarrow>
      create_user pwd_context rowid session user = (session, Inl e)"
  proof (intro impI, elim conjE)
    assume a: "hash pwd_context (password user) = Inr digest" "user_binds user"
      and "user_id user = None" "next_id rowid ?ids = Inl e"
    then have "new_key rowid ?ids (user_id user) = Inl e" by (simp add: new_key_def)
    from create_user_key_error [OF a this]
    show "create_user pwd_context rowid session user = (session, Inl e)" .
  qed
  have ordinary: "(\<forall>j\<in>set ?ids. j < 2 ^ 63 - 1) \<longrightarrow> (\<exists>k. next_id rowid ?ids = Inr k)"
    using next_id_ordinary [of ?ids rowid] by blast
  have free: "hash pwd_context (password user) = Inr digest \<and> user_binds user \<and> user_id user = Some i
        \<and> i \<notin> set ?ids \<longrightarrow>
      create_user pwd_context rowid session user =
        (session\<lparr>user_table :=
           insert_row user_id i (user\<lparr>password := digest\<rparr>) (user_table session)\<rparr>,
         Inr (UserJSON (user\<lparr>password := digest\<rparr>)))"
  proof (intro impI, elim conjE)
    assume a: "hash pwd_context (password user) = Inr digest" "user_binds user"
      and b: "user_id user = Some i" "i \<notin> set ?ids"
    then have k: "new_key rowid ?ids (user_id user) = Inr i" by (simp add: new_key_def)
    have same: "user\<lparr>password := digest, user_id := Some i\<rparr> = user\<lparr>password := digest\<rparr>"
      using b(1) by simp
    from create_user_stored [OF a k] show "create_user pwd_context rowid session user =
        (session\<lparr>user_table :=
           insert_row user_id i (user\<lparr>password := digest\<rparr>) (user_table session)\<rparr>,
         Inr (UserJSON (user\<lparr>password := digest\<rparr>)))"
      unfolding same .
  qed
  have taken: "hash pwd_context (password user) = Inr digest \<and> user_binds user \<and> user_id user = Some i
        \<and> i \<in> set ?ids \<longrightarrow>
      create_user pwd_context rowid session user = (session, Inl IntegrityError)"
  proof (intro impI, elim conjE)
    assume a: "hash pwd_context (password user) = Inr digest" "user_binds user"
      and "user_id user = Some i" "i \<in> set ?ids"
    then have "new_key rowid ?ids (user_id user) = Inl IntegrityError" by (simp add: new_key_def)
    from create_user_key_error [OF a this]
    show "create_user pwd_context rowid session user = (session, Inl IntegrityError)" .
  qed
  have returned: "\<forall>session' row. create_user pwd_context rowid session user = (session', Inr (UserJSON row)) \<longrightarrow>
        hash pwd_context (password user) = Inr (password row)
        \<and> (hash pwd_context (password user) \<noteq> Inr (password user) \<longrightarrow>
             password row \<noteq> password user)
        \<and> user_id row \<noteq> None
        \<and> email row = email user
        \<and> username row = username user
        \<and> is_superuser row = is_superuser user
        \<and> is_active row = is_active user
        \<and> set (user_table session') = insert row (set (user_table session))
        \<and> item_table session' = item_table session"
  proof (intro allI impI)
    fix session' row
    assume "create_user pwd_context rowid session user = (session', Inr (UserJSON row))"
    from create_user_returned [OF this] obtain d k where
      h: "hash pwd_context (password user) = Inr d"
      and row: "row = user\<lparr>password := d, user_id := Some k\<rparr>"
      and s': "session' = session\<lparr>user_table :=
                 insert_row user_id k (user\<lparr>password := d, user_id := Some k\<rparr>)
                   (user_table session)\<rparr>"
      by (elim exE conjE)
    show "hash pwd_context (password user) = Inr (password row)
        \<and> (hash pwd_context (password user) \<noteq> Inr (password user) \<longrightarrow>
             password row \<noteq> password user)
        \<and> user_id row \<noteq> None
        \<and> email row = email user
        \<and> username row = username user
        \<and> is_superuser row = is_superuser user
        \<and> is_active row = is_active user
        \<and> set (user_table session') = insert row (set (user_table session))
        \<and> item_table session' = item_table session"
      unfolding s' row h by auto
  qed
  show ?thesis
    by (rule conjI [OF raises conjI [OF overflow conjI [OF none conjI [OF no_key
          conjI [OF ordinary conjI [OF free conjI [OF taken returned]]]]]]])
qed

lemma shop_user_ids: "table_ids user_id (user_table shop) = [1]"
  by (simp add: table_ids_def shop_def admin_def)

lemma clerk_fields: "user_id clerk = None" "user_binds clerk"
  by (simp_all add: user_binds_def int64_opt_def clerk_def)

lemma clerk_hash: "hash toy_context (password clerk) = Inr ''$2b$12$Secr3t!pw''"
  by (simp add: toy_context_def clerk_def)

theorem create_user_stores_digest_witness:
  "create_user toy_context 0 shop clerk
     = (shop\<lparr>user_table := [admin, clerk\<lparr>password := ''$2b$12$Secr3t!pw'', user_id := Some 2\<rparr>]\<rparr>,
        Inr (UserJSON (clerk\<lparr>password := ''$2b$12$Secr3t!pw'', user_id := Some 2\<rparr>)))
   \<and> create_user toy_context 0 shop (clerk\<lparr>user_id := Some 5\<rparr>)
     = (shop\<lparr>user_table := [admin, clerk\<lparr>user_id := Some 5, password := ''$2b$12$Secr3t!pw''\<rparr>]\<rparr>,
        Inr (UserJSON (clerk\<lparr>user_id := Some 5, password := ''$2b$12$Secr3t!pw''\<rparr>)))
   \<and> create_user toy_context 0 shop (clerk\<lparr>user_id := Some 1\<rparr>) = (shop, Inl IntegrityError)
   \<and> create_user toy_context 0 shop (clerk\<lparr>user_id := Some (2 ^ 63)\<rparr>) = (shop, Inl OverflowError)
   \<and> create_user toy_context 0 shop (clerk\<lparr>password := ''Secr3t!pw'' @ [CHR 0x00]\<rparr>)
     = (shop, Inl PasswordValueError)
   \<and> create_user toy_context 0 (shop\<lparr>user_table := [admin\<lparr>user_id := Some (2 ^ 63 - 1)\<rparr>]\<rparr>) clerk
     = (shop\<lparr>user_table := [admin\<lparr>user_id := Some (2 ^ 63 - 1)\<rparr>]\<rparr>, Inl OperationalError)
   \<and> (\<exists>k. next_id 0 (table_ids user_id (user_table shop)) = Inr k)
   \<and> password (clerk\<lparr>password := ''$2b$12$Secr3t!pw'', user_id := Some 2\<rparr>) \<noteq> password clerk"
proof -
  let ?full = "shop\<lparr>user_table := [admin\<lparr>user_id := Some (2 ^ 63 - 1)\<rparr>]\<rparr>"
  let ?nul = "clerk\<lparr>password := ''Secr3t!pw'' @ [CHR 0x00]\<rparr>"
  note t = create_user_stores_digest [where pwd_context = toy_context and rowid = 0
      and digest = "''$2b$12$Secr3t!pw''"]
  have h: "hash toy_context (password (clerk\<lparr>user_id := v\<rparr>)) = Inr ''$2b$12$Secr3t!pw''" for v
    by (simp add: toy_context_def clerk_def)
  have n: "hash toy_context (password clerk) = Inr ''$2b$12$Secr3t!pw'' \<and> user_binds clerk
           \<and> user_id clerk = None \<and> next_id 0 (table_ids user_id (user_table shop)) = Inr 2"
    by (simp add: clerk_hash clerk_fields shop_user_ids next_id_def)
  note a0 = t [where session = shop and user = clerk and k = 2,
      THEN conjunct2, THEN conjunct2, THEN conjunct1, rule_format, OF n]
  have a: "create_user toy_context 0 shop clerk
     = (shop\<lparr>user_table := [admin, clerk\<lparr>password := ''$2b$12$Secr3t!pw'', user_id := Some 2\<rparr>]\<rparr>,
        Inr (UserJSON (clerk\<lparr>password := ''$2b$12$Secr3t!pw'', user_id := Some 2\<rparr>)))"
    unfolding a0 by (simp add: shop_def admin_def)
  have f: "hash toy_context (password (clerk\<lparr>user_id := Some 5\<rparr>)) = Inr ''$2b$12$Secr3t!pw''
           \<and> user_binds (clerk\<lparr>user_id := Some 5\<rparr>) \<and> user_id (clerk\<lparr>user_id := Some 5\<rparr>) = Some 5
           \<and> 5 \<notin> set (table_ids user_id (user_table shop))"
    by (simp add: clerk_hash shop_user_ids user_binds_def int64_opt_def)
  note b0 = t [where session = shop and user = "clerk\<lparr>user_id := Some 5\<rparr>" and i = 5,
      THEN conjunct2, THEN conjunct2, THEN conjunct2, THEN conjunct2, THEN conjunct2,
      THEN conjunct1, rule_format, OF f]
  have b: "create_user toy_context 0 shop (clerk\<lparr>user_id := Some 5\<rparr>)
     = (shop\<lparr>user_table := [admin, clerk\<lparr>user_id := Some 5, password := ''$2b$12$Secr3t!pw''\<rparr>]\<rparr>,
        Inr (UserJSON (clerk\<lparr>user_id := Some 5, password := ''$2b$12$Secr3t!pw''\<rparr>)))"
    unfolding b0 by (simp add: shop_def admin_def)
  have g: "hash toy_context (password (clerk\<lparr>user_id := Some 1\<rparr>)) = Inr ''$2b$12$Secr3t!pw''
           \<and> user_binds (clerk\<lparr>user_id := Some 1\<rparr>) \<and> user_id (clerk\<lparr>user_id := Some 1\<rparr>) = Some 1
           \<and> 1 \<in> set (table_ids user_id (user_table shop))"
    by (simp add: clerk_hash shop_user_ids user_binds_def int64_opt_def)
  note c = t [where session = shop and user = "clerk\<lparr>user_id := Some 1\<rparr>" and i = 1,
      THEN conjunct2, THEN conjunct2, THEN conjunct2, THEN conjunct2, THEN conjunct2,
      THEN conjunct2, THEN conjunct1, rule_format, OF g]
  have o: "hash toy_context (password (clerk\<lparr>user_id := Some (2 ^ 63)\<rparr>)) = Inr ''$2b$12$Secr3t!pw''
           \<and> \<not> user_binds (clerk\<lparr>user_id := Some (2 ^ 63)\<rparr>)"
    by (simp add: clerk_hash user_binds_def int64_opt_def)
  note d = t [where session = shop and user = "clerk\<lparr>user_id := Some (2 ^ 63)\<rparr>",
      THEN conjunct2, THEN conjunct1, rule_format, OF o]
  have p: "hash toy_context (password ?nul) = Inl PasswordValueError"
    by (simp add: toy_context_def)
  note e = t [where session = shop and user = ?nul and e = PasswordValueError,
      THEN conjunct1, rule_format, OF p]
  have m: "hash toy_context (password clerk) = Inr ''$2b$12$Secr3t!pw'' \<and> user_binds clerk
           \<and> user_id clerk = None
           \<and> next_id 0 (table_ids user_id (user_table ?full)) = Inl OperationalError"
    by (simp add: clerk_hash clerk_fields table_ids_def next_id_def)
  note f' = t [where session = ?full and user = clerk and e = OperationalError,
      THEN conjunct2, THEN conjunct2, THEN conjunct2, THEN conjunct1, rule_format, OF m]
  have q: "\<forall>j\<in>set (table_ids user_id (user_table shop)). j < 2 ^ 63 - 1"
    by (simp add: shop_user_ids)
  note g' = t [where session = shop and user = clerk,
      THEN conjunct2, THEN conjunct2, THEN conjunct2, THEN conjunct2, THEN conjunct1,
      THEN mp, OF q]
  note r = t [where session = shop and user = clerk,
      THEN conjunct2, THEN conjunct2, THEN conjunct2, THEN conjunct2, THEN conjunct2,
      THEN conjunct2, THEN conjunct2, rule_format, OF a, THEN conjunct2, THEN conjunct1,
      rule_format]
  have s: "password (clerk\<lparr>password := ''$2b$12$Secr3t!pw'', user_id := Some 2\<rparr>) \<noteq> password clerk"
    by (rule r, unfold clerk_hash) (simp add: clerk_def)
  show ?thesis
    by (rule conjI [OF a conjI [OF b conjI [OF c conjI [OF d conjI [OF e conjI [OF f'
          conjI [OF g' s]]]]]]])
qed

text \<open>
  Three well-formed payloads for which no user is created and none is returned: one
  carries the id of the stored administrator, and the commit breaks the primary key; one
  carries the id \<open>2 ^ 63\<close>, which the store cannot bind; one carries a password with a
  NUL byte, which the hasher refuses.
\<close>

theorem create_user_no_user_counterexample:
  "create_user toy_context 0 shop (clerk\<lparr>user_id := Some 1\<rparr>) = (shop, Inl IntegrityError)
   \<and> create_user toy_context 0 shop (clerk\<lparr>user_id := Some (2 ^ 63)\<rparr>) = (shop, Inl OverflowError)
   \<and> create_user toy_context 0 shop (clerk\<lparr>password := ''Secr3t!pw'' @ [CHR 0x00]\<rparr>)
       = (shop, Inl PasswordValueError)"
  by (simp add: create_user_def commit_new_user_def user_binds_def int64_opt_def int64_def
      new_key_def table_ids_def toy_context_def clerk_def shop_def admin_def Let_def)

section \<open>Identifiers\<close>
































end
